theory Spec2Isabelle
  imports Complex_Main
begin

section \<open>JavaScript values\<close>

text \<open>
  The server (\<^verbatim>\<open>src/server/steam-proxy.cjs\<close>) works on values that \<^verbatim>\<open>JSON.parse\<close> and
  \<^verbatim>\<open>express.json\<close> hand it, and tests them dynamically (truthiness, \<^verbatim>\<open>Array.isArray\<close>,
  \<^verbatim>\<open>Number(...)\<close>, \<^verbatim>\<open>String(...)\<close>). The model keeps the dynamic types.

  \<^item> A string is a \<open>string\<close>; each \<open>char\<close> stands for one UTF-16 code unit below 256.
  \<^item> \<open>JNum n\<close> is a number with the integral value \<open>n\<close> (of a magnitude whose
    \<^verbatim>\<open>String(...)\<close> is the plain decimal numeral). Fractions, infinities and NaN are not
    values of the model.
  \<^item> \<open>JObj kvs\<close> is a plain object with the own properties \<open>kvs\<close>; the first binding of
    a name is the property's value. \<open>JArr xs\<close> is an array.
  \<^item> \<open>JUndefined\<close> is \<^verbatim>\<open>undefined\<close>: a missing property, a missing argument.
\<close>

datatype jsval =
    JUndefined
  | JNull
  | JBool bool
  | JNum int
  | JStr string
  | JArr "jsval list"
  | JObj "(string \<times> jsval) list"

text \<open>A thrown exception, with its \<^verbatim>\<open>message\<close>.\<close>

datatype js_error = Error string | TypeError string

fun message :: "js_error \<Rightarrow> string" where
  "message (Error m) = m"
| "message (TypeError m) = m"

text \<open>\<^verbatim>\<open>!!v\<close>: \<^verbatim>\<open>undefined\<close>, \<^verbatim>\<open>null\<close>, \<^verbatim>\<open>false\<close>, \<^verbatim>\<open>0\<close> and \<^verbatim>\<open>""\<close> are falsy,
  every array and object is truthy.\<close>

fun truthy :: "jsval \<Rightarrow> bool" where
  "truthy JUndefined = False"
| "truthy JNull = False"
| "truthy (JBool b) = b"
| "truthy (JNum n) = (n \<noteq> 0)"
| "truthy (JStr s) = (s \<noteq> [])"
| "truthy (JArr xs) = True"
| "truthy (JObj kvs) = True"

text \<open>\<^verbatim>\<open>a || b\<close>.\<close>

definition js_or :: "jsval \<Rightarrow> jsval \<Rightarrow> jsval" where
  "js_or a b = (if truthy a then a else b)"

text \<open>
  \<^verbatim>\<open>v.name\<close> on a value that is neither \<^verbatim>\<open>undefined\<close> nor \<^verbatim>\<open>null\<close>, for the property
  names the server reads (none of them is a property of a string, an array, a number or
  a prototype): an own property of an object, \<^verbatim>\<open>undefined\<close> otherwise.
\<close>

fun get_prop :: "jsval \<Rightarrow> string \<Rightarrow> jsval" where
  "get_prop (JObj kvs) name = (case map_of kvs name of Some v \<Rightarrow> v | None \<Rightarrow> JUndefined)"
| "get_prop v name = JUndefined"

text \<open>\<^verbatim>\<open>v?.name\<close>: \<^verbatim>\<open>undefined\<close> when \<open>v\<close> is \<^verbatim>\<open>undefined\<close> or \<^verbatim>\<open>null\<close>.\<close>

definition opt_get :: "jsval \<Rightarrow> string \<Rightarrow> jsval" where
  "opt_get v name = (if v = JUndefined \<or> v = JNull then JUndefined else get_prop v name)"

text \<open>\<^verbatim>\<open>v.name\<close>: a TypeError when \<open>v\<close> is \<^verbatim>\<open>undefined\<close> or \<^verbatim>\<open>null\<close> (the wording of
  the message is the engine's).\<close>

definition member :: "jsval \<Rightarrow> string \<Rightarrow> js_error + jsval" where
  "member v name =
     (if v = JUndefined then Inl (TypeError ''Cannot read properties of undefined'')
      else if v = JNull then Inl (TypeError ''Cannot read properties of null'')
      else Inr (get_prop v name))"

subsection \<open>Numerals\<close>

definition digit_char :: "nat \<Rightarrow> char" where
  "digit_char d = ''0123456789'' ! (d mod 10)"

fun show_nat :: "nat \<Rightarrow> string" where
  "show_nat n = (if n < 10 then [digit_char n] else show_nat (n div 10) @ [digit_char (n mod 10)])"

declare show_nat.simps [simp del]

definition show_int :: "int \<Rightarrow> string" where
  "show_int i = (if i < 0 then CHR ''-'' # show_nat (nat (- i)) else show_nat (nat i))"

subsection \<open>\<^verbatim>\<open>String(v)\<close>\<close>

text \<open>
  \<^verbatim>\<open>String(v)\<close>, also the conversion behind template literals, \<^verbatim>\<open>encodeURIComponent\<close> and
  \<^verbatim>\<open>new Error(v)\<close>. An array is joined with commas, \<^verbatim>\<open>null\<close> and \<^verbatim>\<open>undefined\<close> elements
  giving the empty string. A plain object gives \<^verbatim>\<open>[object Object]\<close> through
  \<^verbatim>\<open>Object.prototype.toString\<close>, unless it has an own property \<^verbatim>\<open>toString\<close>: a parsed
  value is never callable, the inherited \<^verbatim>\<open>valueOf\<close> returns the object itself, and the
  conversion throws a TypeError.
\<close>

definition no_primitive :: js_error where
  "no_primitive = TypeError ''Cannot convert object to primitive value''"

fun to_string :: "jsval \<Rightarrow> js_error + string"
  and join_elems :: "jsval list \<Rightarrow> js_error + string"
  and elem_string :: "jsval \<Rightarrow> js_error + string"
where
  "to_string JUndefined = Inr ''undefined''"
| "to_string JNull = Inr ''null''"
| "to_string (JBool b) = Inr (if b then ''true'' else ''false'')"
| "to_string (JNum n) = Inr (show_int n)"
| "to_string (JStr s) = Inr s"
| "to_string (JArr xs) = join_elems xs"
| "to_string (JObj kvs) =
     (if ''toString'' \<in> set (map fst kvs) then Inl no_primitive else Inr ''[object Object]'')"
| "join_elems [] = Inr []"
| "join_elems (x # xs) =
     (case elem_string x of
        Inl e \<Rightarrow> Inl e
      | Inr s \<Rightarrow>
          (if xs = [] then Inr s
           else (case join_elems xs of Inl e \<Rightarrow> Inl e | Inr r \<Rightarrow> Inr (s @ '','' @ r))))"
| "elem_string JUndefined = Inr []"
| "elem_string JNull = Inr []"
| "elem_string v = to_string v"

subsection \<open>\<^verbatim>\<open>String.prototype.trim\<close>\<close>

text \<open>White space and line terminators among the code units below 256: TAB, LF, VT, FF,
  CR, SP and NBSP.\<close>

definition is_ws :: "char \<Rightarrow> bool" where
  "is_ws c = (of_char c \<in> {9, 10, 11, 12, 13, 32, 160 :: nat})"

definition trim :: "string \<Rightarrow> string" where
  "trim s = rev (dropWhile is_ws (rev (dropWhile is_ws s)))"

subsection \<open>\<^verbatim>\<open>Number(v) === 1\<close>\<close>

text \<open>
  The server converts a value to a number only to compare the result with \<open>1\<close>
  (\<^verbatim>\<open>Number(a?.achieved) !== 1\<close>), so the model has the conversion and the comparison in
  one function. A string is read by the grammar of numeric strings: optional white space
  around a decimal literal with optional sign, fraction and exponent, or around an unsigned
  binary, octal or hexadecimal integer literal. \<open>str_numeric_mv\<close> is the mathematical
  value of a finite literal (\<open>None\<close> where the string is no such literal, the number being
  NaN or infinite there), and the number is \<open>1\<close> when that value rounds to the double
  \<open>1\<close>: it lies between the midpoints to the neighbouring doubles, both included.
\<close>

definition is_digit :: "char \<Rightarrow> bool" where
  "is_digit c = (c \<in> set ''0123456789'')"

definition hex_val :: "char \<Rightarrow> int option" where
  "hex_val c = map_of (zip ''0123456789abcdefABCDEF''
       [0, 1, 2, 3, 4, 5, 6, 7, 8, 9, 10, 11, 12, 13, 14, 15, 10, 11, 12, 13, 14, 15]) c"

definition digit_below :: "int \<Rightarrow> char \<Rightarrow> bool" where
  "digit_below b c = (case hex_val c of Some d \<Rightarrow> d < b | None \<Rightarrow> False)"

definition based_val :: "int \<Rightarrow> string \<Rightarrow> int option" where
  "based_val b s =
     (if s \<noteq> [] \<and> list_all (digit_below b) s
      then Some (foldl (\<lambda>a c. a * b + (case hex_val c of Some d \<Rightarrow> d | None \<Rightarrow> 0)) 0 s)
      else None)"

definition signed_integer :: "string \<Rightarrow> int option" where
  "signed_integer s =
     (case s of
        c # r \<Rightarrow>
          (if c = CHR ''+'' then based_val 10 r
           else if c = CHR ''-'' then map_option uminus (based_val 10 r)
           else based_val 10 s)
      | [] \<Rightarrow> None)"

definition scale10 :: "rat \<Rightarrow> int \<Rightarrow> rat" where
  "scale10 q e = (if 0 \<le> e then q * 10 ^ nat e else q / 10 ^ nat (- e))"

definition unsigned_decimal_mv :: "string \<Rightarrow> rat option" where
  "unsigned_decimal_mv s =
     (let not_e = (\<lambda>c. c \<noteq> CHR ''e'' \<and> c \<noteq> CHR ''E'');
          not_dot = (\<lambda>c. c \<noteq> CHR ''.'');
          mant = takeWhile not_e s;
          expo = dropWhile not_e s;
          ip = takeWhile not_dot mant;
          dotted = dropWhile not_dot mant;
          fp = drop 1 dotted;
          ex = (if expo = [] then Some 0 else signed_integer (drop 1 expo))
      in if list_all is_digit ip \<and> list_all is_digit fp
            \<and> (if dotted = [] then ip \<noteq> [] else ip \<noteq> [] \<or> fp \<noteq> [])
         then (case (based_val 10 (ip @ fp), ex) of
                 (Some n, Some e) \<Rightarrow> Some (scale10 (of_int n) (e - int (length fp)))
               | _ \<Rightarrow> None)
         else None)"

definition str_numeric_mv :: "string \<Rightarrow> rat option" where
  "str_numeric_mv s =
     (if s = [] then Some 0
      else if take 2 s \<in> {''0x'', ''0X''} then map_option of_int (based_val 16 (drop 2 s))
      else if take 2 s \<in> {''0o'', ''0O''} then map_option of_int (based_val 8 (drop 2 s))
      else if take 2 s \<in> {''0b'', ''0B''} then map_option of_int (based_val 2 (drop 2 s))
      else if take 1 s = ''+'' then unsigned_decimal_mv (drop 1 s)
      else if take 1 s = ''-'' then map_option uminus (unsigned_decimal_mv (drop 1 s))
      else unsigned_decimal_mv s)"

definition rounds_to_one :: "rat \<Rightarrow> bool" where
  "rounds_to_one q = (1 - 1 / 2 ^ 54 \<le> q \<and> q \<le> 1 + 1 / 2 ^ 53)"

definition string_is_one :: "string \<Rightarrow> bool" where
  "string_is_one s = (case str_numeric_mv (trim s) of Some q \<Rightarrow> rounds_to_one q | None \<Rightarrow> False)"

text \<open>An array or object is converted through its string (\<^verbatim>\<open>valueOf\<close> returns the
  object itself), so the conversion throws where \<open>to_string\<close> does.\<close>

fun number_is_one :: "jsval \<Rightarrow> js_error + bool" where
  "number_is_one JUndefined = Inr False"
| "number_is_one JNull = Inr False"
| "number_is_one (JBool b) = Inr b"
| "number_is_one (JNum n) = Inr (n = 1)"
| "number_is_one (JStr s) = Inr (string_is_one s)"
| "number_is_one v = (case to_string v of Inl e \<Rightarrow> Inl e | Inr s \<Rightarrow> Inr (string_is_one s))"

subsection \<open>\<^verbatim>\<open>Map\<close>\<close>

text \<open>
  A \<^verbatim>\<open>Map\<close> is the list of its entries in insertion order. Keys are compared by
  SameValueZero: primitive values by value; an array or object only with itself, and the
  keys that are set and the keys that are looked up come from two separately parsed
  documents, so such a key is equal to no other.
\<close>

type_synonym jsmap = "(jsval \<times> jsval) list"

fun is_primitive :: "jsval \<Rightarrow> bool" where
  "is_primitive (JArr xs) = False"
| "is_primitive (JObj kvs) = False"
| "is_primitive v = True"

definition same_value_zero :: "jsval \<Rightarrow> jsval \<Rightarrow> bool" where
  "same_value_zero a b = (is_primitive a \<and> a = b)"

fun map_set :: "jsmap \<Rightarrow> jsval \<Rightarrow> jsval \<Rightarrow> jsmap" where
  "map_set [] k v = [(k, v)]"
| "map_set ((k', v') # m) k v =
     (if same_value_zero k' k then (k', v) # m else (k', v') # map_set m k v)"

fun map_get :: "jsmap \<Rightarrow> jsval \<Rightarrow> jsval" where
  "map_get [] k = JUndefined"
| "map_get ((k', v') # m) k = (if same_value_zero k' k then v' else map_get m k)"

subsection \<open>Regular expressions\<close>

text \<open>
  With the flag \<^verbatim>\<open>i\<close> and no flag \<^verbatim>\<open>u\<close>, a character of the input matches a pattern
  character when their canonical forms (upper case) are equal. The patterns are ASCII, and
  a character outside ASCII is never canonicalised to an ASCII one, so only the ASCII
  letters need their upper case.
\<close>

definition canon :: "char \<Rightarrow> char" where
  "canon c =
     (case map_of (zip ''abcdefghijklmnopqrstuvwxyz'' ''ABCDEFGHIJKLMNOPQRSTUVWXYZ'') c of
        Some u \<Rightarrow> u
      | None \<Rightarrow> c)"

text \<open>The literal \<open>lit\<close> matched, ignoring case, at the head of \<open>s\<close>, character by
  character: the rest of \<open>s\<close>.\<close>

fun ci_prefix :: "string \<Rightarrow> string \<Rightarrow> string option" where
  "ci_prefix [] s = Some s"
| "ci_prefix (p # ps) [] = None"
| "ci_prefix (p # ps) (c # cs) = (if canon c = canon p then ci_prefix ps cs else None)"

text \<open>\<^verbatim>\<open>/steamcommunity\.com\/profiles\/([0-9]{17})/i\<close> matched at the head of \<open>s\<close>:
  the capture group.\<close>

definition match_profiles_here :: "string \<Rightarrow> string option" where
  "match_profiles_here s =
     (case ci_prefix ''steamcommunity.com/profiles/'' s of
        None \<Rightarrow> None
      | Some rest \<Rightarrow>
          (if 17 \<le> length rest \<and> list_all is_digit (take 17 rest) then Some (take 17 rest)
           else None))"

text \<open>\<^verbatim>\<open>/steamcommunity\.com\/id\/([^\/\?\#]+)/i\<close> matched at the head of \<open>s\<close>: the
  capture group, which the greedy \<^verbatim>\<open>+\<close> makes the longest run.\<close>

definition token_char :: "char \<Rightarrow> bool" where
  "token_char c = (c \<notin> set ''/?#'')"

definition match_vanity_here :: "string \<Rightarrow> string option" where
  "match_vanity_here s =
     (case ci_prefix ''steamcommunity.com/id/'' s of
        None \<Rightarrow> None
      | Some rest \<Rightarrow>
          (if takeWhile token_char rest \<noteq> [] then Some (takeWhile token_char rest) else None))"

text \<open>\<^verbatim>\<open>String.prototype.match\<close> with a regular expression without the flag \<^verbatim>\<open>g\<close>: the
  match at the leftmost position where there is one.\<close>

fun regex_search :: "(string \<Rightarrow> 'a option) \<Rightarrow> string \<Rightarrow> 'a option" where
  "regex_search here [] = here []"
| "regex_search here (c # cs) =
     (case here (c # cs) of Some r \<Rightarrow> Some r | None \<Rightarrow> regex_search here cs)"

section \<open>The server\<close>

text \<open>
  The functions of \<^verbatim>\<open>src/server/steam-proxy.cjs\<close>, under their names. An \<^verbatim>\<open>async\<close> function
  that awaits its calls one after the other is a function that returns its result, or
  the exception it throws, together with the outbound requests it has made. The
  \<^verbatim>\<open>console.log\<close> lines (and \<^verbatim>\<open>redactKey\<close>, which only they use) have no part in any result
  and are left out; \<^verbatim>\<open>cors\<close> and \<^verbatim>\<open>express.json\<close> run before the routes and hand them the
  parsed body.
\<close>

subsection \<open>Configuration and start\<close>

text \<open>The environment variables the module reads once, when it is loaded; \<open>None\<close> is an
  unset variable.\<close>

record config =
  NODE_ENV :: "string option"
  STEAM_API_KEY :: "string option"
  TURNSTILE_SECRET_KEY :: "string option"

definition APPID :: nat where
  "APPID = 1609230"

definition IS_PROD :: "config \<Rightarrow> bool" where
  "IS_PROD cfg = (NODE_ENV cfg = Some ''production'')"

text \<open>\<^verbatim>\<open>!!v\<close> for an environment variable: unset and empty are falsy.\<close>

definition env_set :: "string option \<Rightarrow> bool" where
  "env_set v = (case v of None \<Rightarrow> False | Some s \<Rightarrow> s \<noteq> [])"

text \<open>\<^verbatim>\<open>String(v)\<close> of an environment variable, as \<^verbatim>\<open>encodeURIComponent\<close> sees it.\<close>

definition env_string :: "string option \<Rightarrow> string" where
  "env_string v = (case v of None \<Rightarrow> ''undefined'' | Some s \<Rightarrow> s)"

text \<open>Loading the module: \<^verbatim>\<open>process.exit(1)\<close> without the API key, otherwise the routes are
  installed and \<^verbatim>\<open>app.listen\<close> runs. Nothing else is checked at that time.\<close>

datatype process_state = Exited nat | Listening

definition startup :: "config \<Rightarrow> process_state" where
  "startup cfg = (if \<not> env_set (STEAM_API_KEY cfg) then Exited 1 else Listening)"

subsection \<open>Outbound calls\<close>

text \<open>
  The three outbound requests, by what the server puts into them:
  \<^item> \<open>SiteVerify secret response remoteip\<close>: the form posted to
    \<^verbatim>\<open>challenges.cloudflare.com/turnstile/v0/siteverify\<close>;
  \<^item> \<open>ResolveVanityURL key vanityurl\<close>: the query of
    \<^verbatim>\<open>api.steampowered.com/ISteamUser/ResolveVanityURL/v0001/\<close>;
  \<^item> \<open>GetPlayerAchievements key steamid appid\<close>: the query of
    \<^verbatim>\<open>api.steampowered.com/ISteamUserStats/GetPlayerAchievements/v1/\<close>.

  The network answers a request with a rejection of \<^verbatim>\<open>fetch\<close> (an exception) or with a
  response: its HTTP status and its body as \<^verbatim>\<open>JSON.parse\<close> reads it, \<open>None\<close> when the body
  is not JSON. Every function returns its result together with the requests it has sent,
  in order.
\<close>

datatype outbound =
    SiteVerify string string "string option"
  | ResolveVanityURL string string
  | GetPlayerAchievements string string string

record response =
  status :: nat
  parsed :: "jsval option"

type_synonym network = "outbound \<Rightarrow> js_error + response"

text \<open>\<^verbatim>\<open>res.ok\<close>.\<close>

definition ok :: "response \<Rightarrow> bool" where
  "ok res = (200 \<le> status res \<and> status res \<le> 299)"

text \<open>\<^verbatim>\<open>let data = null; try { data = JSON.parse(rawText); } catch {}\<close>, and
  \<^verbatim>\<open>await resp.json().catch(() => null)\<close>.\<close>

definition parsed_or_null :: "response \<Rightarrow> jsval" where
  "parsed_or_null res = (case parsed res of None \<Rightarrow> JNull | Some d \<Rightarrow> d)"

subsection \<open>Helpers\<close>

definition cleanProfileUrl :: "jsval \<Rightarrow> js_error + string" where
  "cleanProfileUrl u = map_sum id trim (to_string (js_or u (JStr [])))"

text \<open>\<^verbatim>\<open>/^[0-9]{17}$/.test(String(s))\<close>, on a string.\<close>

definition isSteamID64 :: "string \<Rightarrow> bool" where
  "isSteamID64 s = (length s = 17 \<and> list_all is_digit s)"

subsection \<open>\<^verbatim>\<open>verifyTurnstileOrSkip\<close>\<close>

definition verifyTurnstileOrSkip ::
  "config \<Rightarrow> network \<Rightarrow> string \<Rightarrow> string option \<Rightarrow> (js_error + jsval) \<times> outbound list" where
  "verifyTurnstileOrSkip cfg net token remoteip =
     (if \<not> IS_PROD cfg then (Inr (JObj [(''success'', JBool True), (''skipped'', JBool True)]), [])
      else if \<not> env_set (TURNSTILE_SECRET_KEY cfg)
        then (Inl (Error ''Missing TURNSTILE_SECRET_KEY in production''), [])
      else if token = []
        then (Inr (JObj [(''success'', JBool False), (''error'', JStr ''Missing turnstileToken'')]), [])
      else
        (let req = SiteVerify (env_string (TURNSTILE_SECRET_KEY cfg)) token
                     (if env_set remoteip then remoteip else None)
         in case net req of
              Inl e \<Rightarrow> (Inl e, [req])
            | Inr resp \<Rightarrow>
                (let data = parsed_or_null resp
                 in if \<not> truthy (opt_get data ''success'')
                    then (Inr (JObj [(''success'', JBool False), (''error'', JStr ''Turnstile failed''),
                                     (''details'', data)]), [req])
                    else (Inr (JObj [(''success'', JBool True)]), [req]))))"

subsection \<open>\<^verbatim>\<open>resolveVanity\<close> and \<^verbatim>\<open>resolveSteamId64\<close>\<close>

definition resolveVanity ::
  "config \<Rightarrow> network \<Rightarrow> string \<Rightarrow> (js_error + jsval) \<times> outbound list" where
  "resolveVanity cfg net vanity =
     (let req = ResolveVanityURL (env_string (STEAM_API_KEY cfg)) vanity
      in case net req of
           Inl e \<Rightarrow> (Inl e, [req])
         | Inr res \<Rightarrow>
             (let data = parsed_or_null res
              in if \<not> ok res
                 then (Inl (Error (''ResolveVanityURL failed (HTTP '' @ show_nat (status res) @ '')'')),
                       [req])
                 else
                   (let steamid = opt_get (opt_get data ''response'') ''steamid'';
                        success = opt_get (opt_get data ''response'') ''success''
                    in if success \<noteq> JNum 1 \<or> \<not> truthy steamid
                       then (Inl (Error (''Could not resolve that Steam profile. (vanity=''
                                          @ vanity @ '')'')), [req])
                       else (Inr steamid, [req]))))"

definition resolveSteamId64 ::
  "config \<Rightarrow> network \<Rightarrow> jsval \<Rightarrow> (js_error + jsval) \<times> outbound list" where
  "resolveSteamId64 cfg net profile =
     (case cleanProfileUrl profile of
        Inl e \<Rightarrow> (Inl e, [])
      | Inr p \<Rightarrow>
          (if isSteamID64 p then (Inr (JStr p), [])
           else (case regex_search match_profiles_here p of
                   Some digits \<Rightarrow> (Inr (JStr digits), [])
                 | None \<Rightarrow>
                     (case regex_search match_vanity_here p of
                        Some token \<Rightarrow> resolveVanity cfg net token
                      | None \<Rightarrow> resolveVanity cfg net p))))"

subsection \<open>\<^verbatim>\<open>getPlayerAchievements\<close>\<close>

definition getPlayerAchievements ::
  "config \<Rightarrow> network \<Rightarrow> jsval \<Rightarrow> (js_error + jsval list) \<times> outbound list" where
  "getPlayerAchievements cfg net steamid64 =
     (case to_string steamid64 of
        Inl e \<Rightarrow> (Inl e, [])
      | Inr sid \<Rightarrow>
          (let req = GetPlayerAchievements (env_string (STEAM_API_KEY cfg)) sid (show_nat APPID)
           in case net req of
                Inl e \<Rightarrow> (Inl e, [req])
              | Inr res \<Rightarrow>
                  (let data = parsed_or_null res
                   in if \<not> ok res
                      then (Inl (Error (''Steam API error (HTTP '' @ show_nat (status res) @ '')'')),
                            [req])
                      else
                        (let ps = opt_get data ''playerstats''
                         in if \<not> truthy ps
                            then (Inl (Error ''Unexpected Steam response (missing playerstats).''),
                                  [req])
                            else if truthy (get_prop ps ''error'')
                            then (case to_string (get_prop ps ''error'') of
                                    Inl e \<Rightarrow> (Inl e, [req])
                                  | Inr m \<Rightarrow> (Inl (Error m), [req]))
                            else (case get_prop ps ''achievements'' of
                                    JArr achievements \<Rightarrow> (Inr achievements, [req])
                                  | _ \<Rightarrow> (Inr [], [req]))))))"

subsection \<open>\<^verbatim>\<open>handleSync\<close>\<close>

text \<open>\<^verbatim>\<open>for (const a of v)\<close>: the elements of an array, the characters of a string; any
  other value is not iterable (the wording of the message is the engine's).\<close>

fun iterate :: "jsval \<Rightarrow> js_error + jsval list" where
  "iterate (JArr xs) = Inr xs"
| "iterate (JStr s) = Inr (map (\<lambda>c. JStr [c]) s)"
| "iterate v = Inl (TypeError ''client is not iterable'')"

text \<open>The first loop: \<^verbatim>\<open>if (a?.apiname && a?.key) apiToKey.set(a.apiname, a.key)\<close>.\<close>

definition apiToKey_step :: "jsmap \<Rightarrow> jsval \<Rightarrow> jsmap" where
  "apiToKey_step m a =
     (if truthy (opt_get a ''apiname'') \<and> truthy (opt_get a ''key'')
      then map_set m (get_prop a ''apiname'') (get_prop a ''key'') else m)"

definition build_apiToKey :: "jsval list \<Rightarrow> jsmap" where
  "build_apiToKey entries = foldl apiToKey_step [] entries"

text \<open>The second loop, with the list \<open>unlocked\<close> built so far.\<close>

fun unlocked_loop :: "jsmap \<Rightarrow> jsval list \<Rightarrow> jsval list \<Rightarrow> js_error + jsval list" where
  "unlocked_loop apiToKey unlocked [] = Inr unlocked"
| "unlocked_loop apiToKey unlocked (a # rest) =
     (case number_is_one (opt_get a ''achieved'') of
        Inl e \<Rightarrow> Inl e
      | Inr one \<Rightarrow>
          (if \<not> one then unlocked_loop apiToKey unlocked rest
           else (case member a ''apiname'' of
                   Inl e \<Rightarrow> Inl e
                 | Inr name \<Rightarrow>
                     (let key = map_get apiToKey name
                      in unlocked_loop apiToKey
                           (if truthy key then unlocked @ [key] else unlocked) rest))))"

record sync_result =
  steamid64 :: jsval
  unlocked :: "jsval list"
  count :: nat

definition handleSync ::
  "config \<Rightarrow> network \<Rightarrow> jsval \<Rightarrow> jsval \<Rightarrow> (js_error + sync_result) \<times> outbound list" where
  "handleSync cfg net profile client =
     (case resolveSteamId64 cfg net profile of
        (Inl e, t1) \<Rightarrow> (Inl e, t1)
      | (Inr sid, t1) \<Rightarrow>
          (case getPlayerAchievements cfg net sid of
             (Inl e, t2) \<Rightarrow> (Inl e, t1 @ t2)
           | (Inr list, t2) \<Rightarrow>
               (case iterate (js_or client (JArr [])) of
                  Inl e \<Rightarrow> (Inl e, t1 @ t2)
                | Inr entries \<Rightarrow>
                    (case unlocked_loop (build_apiToKey entries) [] list of
                       Inl e \<Rightarrow> (Inl e, t1 @ t2)
                     | Inr keys \<Rightarrow>
                         (Inr \<lparr>steamid64 = sid, unlocked = keys, count = length keys\<rparr>,
                          t1 @ t2)))))"

subsection \<open>The routes\<close>

record request =
  req_body :: jsval
  req_ip :: "string option"

text \<open>A response: the status and the value given to \<^verbatim>\<open>res.json\<close> (a property whose value
  is \<^verbatim>\<open>undefined\<close> is not written into the body that is sent).\<close>

record http_response =
  code :: nat
  json :: jsval

definition missing_profile :: http_response where
  "missing_profile = \<lparr>code = 400, json = JObj [(''error'', JStr ''Missing profile'')]\<rparr>"

text \<open>The \<^verbatim>\<open>catch\<close> of the route: \<^verbatim>\<open>res.status(500).json({ error: e?.message || "Server error" })\<close>.\<close>

definition server_error :: "js_error \<Rightarrow> http_response" where
  "server_error e =
     \<lparr>code = 500,
      json = JObj [(''error'', js_or (JStr (message e)) (JStr ''Server error''))]\<rparr>"

definition sync_json :: "sync_result \<Rightarrow> jsval" where
  "sync_json out =
     JObj [(''steamid64'', steamid64 out), (''unlocked'', JArr (unlocked out)),
           (''count'', JNum (int (count out)))]"

text \<open>\<^verbatim>\<open>app.post("/api/steam-sync", ...)\<close>.\<close>

definition post_steam_sync ::
  "config \<Rightarrow> network \<Rightarrow> request \<Rightarrow> http_response \<times> outbound list" where
  "post_steam_sync cfg net req =
     (case to_string (js_or (opt_get (req_body req) ''profile'') (JStr [])) of
        Inl e \<Rightarrow> (server_error e, [])
      | Inr praw \<Rightarrow>
          (let profile = trim praw
           in if profile = [] then (missing_profile, [])
              else
                (let client = (case opt_get (req_body req) ''client'' of
                                 JArr xs \<Rightarrow> JArr xs
                               | _ \<Rightarrow> JArr [])
                 in case to_string (js_or (opt_get (req_body req) ''turnstileToken'') (JStr [])) of
                      Inl e \<Rightarrow> (server_error e, [])
                    | Inr traw \<Rightarrow>
                        (case verifyTurnstileOrSkip cfg net (trim traw) (req_ip req) of
                           (Inl e, t1) \<Rightarrow> (server_error e, t1)
                         | (Inr ts, t1) \<Rightarrow>
                             (if \<not> truthy (get_prop ts ''success'')
                              then (\<lparr>code = 400,
                                     json = JObj [(''error'', get_prop ts ''error''),
                                                  (''details'', get_prop ts ''details'')]\<rparr>, t1)
                              else (case handleSync cfg net (JStr profile) client of
                                      (Inl e, t2) \<Rightarrow> (server_error e, t1 @ t2)
                                    | (Inr out, t2) \<Rightarrow>
                                        (\<lparr>code = 200, json = sync_json out\<rparr>, t1 @ t2)))))))"

text \<open>\<^verbatim>\<open>app.get("/api/steam-sync", ...)\<close>.\<close>

definition get_steam_sync :: http_response where
  "get_steam_sync = missing_profile"

section \<open>Vocabulary of the specification\<close>

subsection \<open>Typed records\<close>

text \<open>A client manifest entry is a pair of an api-name and an opaque key, an achievement
  record a pair of an api-name and the achieved flag; \<open>entry_json\<close> and \<open>record_json\<close> are
  the objects the server receives for them.\<close>

type_synonym manifest_entry = "string \<times> string"

type_synonym achievement_record = "string \<times> int"

definition entry_json :: "manifest_entry \<Rightarrow> jsval" where
  "entry_json e = JObj [(''apiname'', JStr (fst e)), (''key'', JStr (snd e))]"

definition record_json :: "achievement_record \<Rightarrow> jsval" where
  "record_json r = JObj [(''apiname'', JStr (fst r)), (''achieved'', JNum (snd r))]"

text \<open>An object of the manifest or of the stats list stands for a typed record when it has
  the record's two fields; it may have others (\<^verbatim>\<open>unlocktime\<close>, \<^verbatim>\<open>name\<close>, ...), which the
  server does not read.\<close>

definition describes_entry :: "jsval \<Rightarrow> manifest_entry \<Rightarrow> bool" where
  "describes_entry a e = (get_prop a ''apiname'' = JStr (fst e) \<and> get_prop a ''key'' = JStr (snd e))"

definition describes_record :: "jsval \<Rightarrow> achievement_record \<Rightarrow> bool" where
  "describes_record a r =
     (get_prop a ''apiname'' = JStr (fst r) \<and> get_prop a ''achieved'' = JNum (snd r))"

text \<open>The lookup in the specification's words: from api-name to key, the last entry of a
  duplicated api-name winning.\<close>

definition last_wins :: "manifest_entry list \<Rightarrow> string \<Rightarrow> string option" where
  "last_wins manifest = map_of (rev manifest)"

text \<open>The result list in the specification's words: the achievements in their order, the
  mapped key for each record with the flag \<open>1\<close> and an api-name in the lookup.\<close>

definition mapped_keys :: "(string \<Rightarrow> string option) \<Rightarrow> achievement_record list \<Rightarrow> string list" where
  "mapped_keys lookup achievements =
     List.map_filter (\<lambda>r. if snd r = 1 then lookup (fst r) else None) achievements"

text \<open>An entry that the first loop of \<^verbatim>\<open>handleSync\<close> takes up: api-name and key are both
  non-empty.\<close>

definition usable :: "manifest_entry \<Rightarrow> bool" where
  "usable e = (fst e \<noteq> [] \<and> snd e \<noteq> [])"

subsection \<open>The stats response\<close>

text \<open>The top-level \<^verbatim>\<open>playerstats\<close> value of a response, \<^verbatim>\<open>undefined\<close> when the body is not
  JSON or has none.\<close>

definition playerstats_of :: "response \<Rightarrow> jsval" where
  "playerstats_of res = opt_get (parsed_or_null res) ''playerstats''"

subsection \<open>Substrings\<close>

text \<open>\<open>contains s t\<close>: the string \<open>t\<close> occurs in \<open>s\<close>.\<close>

fun contains :: "string \<Rightarrow> string \<Rightarrow> bool" where
  "contains [] t = (t = [])"
| "contains (c # cs) t = (take (length t) (c # cs) = t \<or> contains cs t)"

text \<open>Two strings equal up to the case of ASCII letters.\<close>

definition ci_equal :: "string \<Rightarrow> string \<Rightarrow> bool" where
  "ci_equal a b = (map canon a = map canon b)"

definition seventeen_digits :: "string \<Rightarrow> bool" where
  "seventeen_digits d = (length d = 17 \<and> set d \<subseteq> set ''0123456789'')"

text \<open>
  The patterns of the resolver, with the literal that precedes the digits or the token as a
  parameter \<open>marker\<close>, matched in any case.
  \<^item> \<open>digits_after marker p pre d\<close>: in \<open>p\<close>, after \<open>pre\<close>, stands \<open>marker\<close> and then the
    seventeen digits \<open>d\<close>.
  \<^item> \<open>token_after marker p pre tok\<close>: in \<open>p\<close>, after \<open>pre\<close>, stands \<open>marker\<close> and then the
    non-empty \<open>tok\<close>, free of \<^verbatim>\<open>/\<close>, \<^verbatim>\<open>?\<close> and \<^verbatim>\<open>#\<close>.
  \<^item> \<open>whole_token_after\<close>: moreover \<open>tok\<close> is the whole token, it ends at the end of \<open>p\<close> or
    before one of these three characters.

  The specification writes the patterns as \<^verbatim>\<open>.../profiles/<17 digits>\<close> and
  \<^verbatim>\<open>.../id/<token>\<close>, with any text in front: the markers \<^verbatim>\<open>/profiles/\<close> and \<^verbatim>\<open>/id/\<close>. The
  regular expressions of the source have the host in the literal: the markers
  \<^verbatim>\<open>steamcommunity.com/profiles/\<close> and \<^verbatim>\<open>steamcommunity.com/id/\<close>.
\<close>

definition digits_after :: "string \<Rightarrow> string \<Rightarrow> string \<Rightarrow> string \<Rightarrow> bool" where
  "digits_after marker p pre d =
     (\<exists>lit suf. p = pre @ lit @ d @ suf \<and> ci_equal lit marker \<and> seventeen_digits d)"

definition token_after :: "string \<Rightarrow> string \<Rightarrow> string \<Rightarrow> string \<Rightarrow> bool" where
  "token_after marker p pre tok =
     (\<exists>lit suf. p = pre @ lit @ tok @ suf \<and> ci_equal lit marker
        \<and> tok \<noteq> [] \<and> set tok \<inter> set ''/?#'' = {})"

definition whole_token_after :: "string \<Rightarrow> string \<Rightarrow> string \<Rightarrow> string \<Rightarrow> bool" where
  "whole_token_after marker p pre tok =
     (\<exists>lit suf. p = pre @ lit @ tok @ suf \<and> ci_equal lit marker
        \<and> tok \<noteq> [] \<and> set tok \<inter> set ''/?#'' = {}
        \<and> (suf = [] \<or> hd suf \<in> set ''/?#''))"

subsection \<open>Example inputs\<close>

text \<open>A network that answers every request with status 200 and the given JSON body, one
  that answers with a status and a body that is not JSON, and one where \<^verbatim>\<open>fetch\<close> rejects.\<close>

definition replies :: "jsval \<Rightarrow> network" where
  "replies body = (\<lambda>req. Inr \<lparr>status = 200, parsed = Some body\<rparr>)"

definition replies_text :: "nat \<Rightarrow> network" where
  "replies_text st = (\<lambda>req. Inr \<lparr>status = st, parsed = None\<rparr>)"

definition unreachable :: network where
  "unreachable = (\<lambda>req. Inl (TypeError ''fetch failed''))"

definition stats_body :: "jsval list \<Rightarrow> jsval" where
  "stats_body achievements = JObj [(''playerstats'', JObj [(''achievements'', JArr achievements)])]"

definition dev_config :: config where
  "dev_config = \<lparr>NODE_ENV = None, STEAM_API_KEY = Some ''0123456789ABCDEF'',
                 TURNSTILE_SECRET_KEY = None\<rparr>"

definition prod_config :: config where
  "prod_config = \<lparr>NODE_ENV = Some ''production'', STEAM_API_KEY = Some ''0123456789ABCDEF'',
                  TURNSTILE_SECRET_KEY = Some ''0x4AAAAAAA''\<rparr>"

definition prod_no_secret :: config where
  "prod_no_secret = \<lparr>NODE_ENV = Some ''production'', STEAM_API_KEY = Some ''0123456789ABCDEF'',
                     TURNSTILE_SECRET_KEY = None\<rparr>"

text \<open>The request the other network sees when the API key is \<open>k\<close> instead.\<close>

fun with_key :: "string \<Rightarrow> outbound \<Rightarrow> outbound" where
  "with_key k (ResolveVanityURL k' vanity) = ResolveVanityURL k vanity"
| "with_key k (GetPlayerAchievements k' sid app) = GetPlayerAchievements k sid app"
| "with_key k (SiteVerify secret token ip) = SiteVerify secret token ip"

section \<open>Lemmas\<close>

text \<open>The equations that evaluate the model on a concrete input.\<close>

named_theorems js_eval

lemmas [js_eval] =
  js_or_def opt_get_def member_def show_nat.simps digit_char_def show_int_def no_primitive_def
  is_ws_def trim_def is_digit_def same_value_zero_def canon_def
  match_profiles_here_def token_char_def match_vanity_here_def
  APPID_def IS_PROD_def env_set_def env_string_def startup_def ok_def parsed_or_null_def
  cleanProfileUrl_def isSteamID64_def verifyTurnstileOrSkip_def resolveVanity_def
  resolveSteamId64_def getPlayerAchievements_def apiToKey_step_def build_apiToKey_def
  handleSync_def missing_profile_def server_error_def sync_json_def post_steam_sync_def
  get_steam_sync_def entry_json_def record_json_def last_wins_def mapped_keys_def usable_def
  List.map_filter_simps replies_def replies_text_def unreachable_def stats_body_def
  dev_config_def prod_config_def prod_no_secret_def Let_def

subsection \<open>The map and the two loops\<close>

lemma map_get_map_set:
  "is_primitive k \<Longrightarrow> map_get (map_set m k v) q = (if q = k then v else map_get m q)"
  by (induction m) (auto simp: same_value_zero_def)

lemma describes_entry_json: "describes_entry (entry_json e) e"
  by (simp add: describes_entry_def entry_json_def)

lemma describes_record_json: "describes_record (record_json r) r"
  by (simp add: describes_record_def record_json_def)

lemma get_prop_opt_get: "get_prop a name = JStr s \<Longrightarrow> opt_get a name = JStr s"
  by (cases a) (simp_all add: opt_get_def)

lemma get_prop_opt_get_num: "get_prop a name = JNum n \<Longrightarrow> opt_get a name = JNum n"
  by (cases a) (simp_all add: opt_get_def)

lemma apiToKey_step_described:
  assumes "describes_entry a e"
  shows "apiToKey_step m a = (if usable e then map_set m (JStr (fst e)) (JStr (snd e)) else m)"
  using assms
  by (auto simp: apiToKey_step_def describes_entry_def usable_def dest!: get_prop_opt_get)

lemma last_wins_Cons:
  "last_wins (e # es) n =
     (case last_wins es n of Some k \<Rightarrow> Some k | None \<Rightarrow> (if fst e = n then Some (snd e) else None))"
  by (cases e) (auto simp: last_wins_def map_add_def split: option.splits)

lemma map_get_foldl_described:
  assumes "list_all2 describes_entry entries manifest"
  shows "map_get (foldl apiToKey_step m entries) (JStr n) =
     (case last_wins (filter usable manifest) n of Some k \<Rightarrow> JStr k | None \<Rightarrow> map_get m (JStr n))"
  using assms
proof (induction entries manifest arbitrary: m rule: list_all2_induct)
  case Nil
  show ?case by (simp add: last_wins_def)
next
  case (Cons a entries e manifest)
  show ?case
  proof (cases "usable e")
    case True
    with Cons show ?thesis
      by (auto simp: apiToKey_step_described map_get_map_set last_wins_Cons split: option.splits)
  next
    case False
    with Cons show ?thesis by (simp add: apiToKey_step_described)
  qed
qed

lemma map_get_build_described:
  assumes "list_all2 describes_entry entries manifest"
  shows "map_get (build_apiToKey entries) (JStr n) =
     (case last_wins (filter usable manifest) n of Some k \<Rightarrow> JStr k | None \<Rightarrow> JUndefined)"
  using map_get_foldl_described [OF assms, of "[]" n]
  by (simp add: build_apiToKey_def split: option.splits)

lemma last_wins_usable_nonempty:
  "last_wins (filter usable manifest) n = Some k \<Longrightarrow> k \<noteq> []"
proof -
  assume "last_wins (filter usable manifest) n = Some k"
  then have "(n, k) \<in> set (rev (filter usable manifest))"
    unfolding last_wins_def by (rule map_of_SomeD)
  then show ?thesis by (simp add: usable_def)
qed

lemma unlocked_loop_described:
  assumes "list_all2 describes_record list achievements"
    and "list_all2 describes_entry entries manifest"
  shows "unlocked_loop (build_apiToKey entries) acc list =
     Inr (acc @ map JStr (mapped_keys (last_wins (filter usable manifest)) achievements))"
  using assms(1)
proof (induction list achievements arbitrary: acc rule: list_all2_induct)
  case Nil
  show ?case by (simp add: mapped_keys_def List.map_filter_simps)
next
  case (Cons a list r achievements)
  from Cons(1) have ga: "opt_get a ''achieved'' = JNum (snd r)"
    and gn: "get_prop a ''apiname'' = JStr (fst r)" and nn: "a \<noteq> JUndefined" "a \<noteq> JNull"
    by (auto simp: describes_record_def dest: get_prop_opt_get_num)
  show ?case
  proof (cases "snd r = 1")
    case False
    then show ?thesis using Cons ga
      by (simp add: mapped_keys_def List.map_filter_simps)
  next
    case True
    show ?thesis
    proof (cases "last_wins (filter usable manifest) (fst r)")
      case None
      then show ?thesis using Cons ga gn nn True
        by (simp add: member_def mapped_keys_def List.map_filter_simps
            map_get_build_described [OF assms(2)])
    next
      case (Some k)
      then have "k \<noteq> []" by (rule last_wins_usable_nonempty)
      then show ?thesis using Cons ga gn nn True Some
        by (simp add: member_def mapped_keys_def List.map_filter_simps
            map_get_build_described [OF assms(2)])
    qed
  qed
qed

lemma records_described: "list_all2 describes_record (map record_json rs) rs"
  by (simp add: list_all2_map1 list.rel_refl describes_record_json)

lemma entries_described: "list_all2 describes_entry (map entry_json es) es"
  by (simp add: list_all2_map1 list.rel_refl describes_entry_json)

subsection \<open>Searching a string\<close>

lemma regex_search_SomeD:
  "regex_search here s = Some r \<Longrightarrow>
     \<exists>pre suf. s = pre @ suf \<and> here suf = Some r
       \<and> (\<forall>pre' suf'. s = pre' @ suf' \<and> length pre' < length pre \<longrightarrow> here suf' = None)"
proof (induction s)
  case Nil
  then have "[] = [] @ [] \<and> here [] = Some r" by simp
  then show ?case by fastforce
next
  case (Cons c cs)
  show ?case
  proof (cases "here (c # cs)")
    case (Some r')
    with Cons.prems have "c # cs = [] @ (c # cs) \<and> here (c # cs) = Some r" by simp
    then show ?thesis by (metis length_0_conv less_nat_zero_code list.size(3))
  next
    case None
    with Cons.prems have "regex_search here cs = Some r" by simp
    from Cons.IH [OF this] obtain pre suf where
      ps: "cs = pre @ suf" "here suf = Some r"
      and left: "\<forall>pre' suf'. cs = pre' @ suf' \<and> length pre' < length pre \<longrightarrow> here suf' = None"
      by blast
    have "\<forall>pre' suf'. c # cs = pre' @ suf' \<and> length pre' < length (c # pre) \<longrightarrow> here suf' = None"
    proof (intro allI impI)
      fix pre' suf'
      assume a: "c # cs = pre' @ suf' \<and> length pre' < length (c # pre)"
      show "here suf' = None"
      proof (cases pre')
        case Nil
        with a None show ?thesis by simp
      next
        case (Cons x xs)
        with a have "cs = xs @ suf' \<and> length xs < length pre" by simp
        with left show ?thesis by blast
      qed
    qed
    moreover have "c # cs = (c # pre) @ suf" using ps by simp
    ultimately show ?thesis using ps(2) by blast
  qed
qed

lemma regex_search_NoneD:
  "regex_search here s = None \<Longrightarrow> s = pre @ suf \<Longrightarrow> here suf = None"
proof (induction s arbitrary: pre)
  case Nil
  then show ?case by simp
next
  case (Cons c cs)
  show ?case
  proof (cases pre)
    case Nil
    with Cons.prems have "suf = c # cs" "regex_search here (c # cs) = None" by simp_all
    then show ?thesis by (simp split: option.splits)
  next
    case (Cons x xs)
    with Cons.prems have "regex_search here cs = None" "cs = xs @ suf"
      by (simp_all split: option.splits)
    then show ?thesis by (rule Cons.IH)
  qed
qed

lemma ci_equal_length: "ci_equal a b \<Longrightarrow> length a = length b"
  unfolding ci_equal_def by (rule map_eq_imp_length_eq)

lemma ci_prefix_Some_iff:
  "ci_prefix lit s = Some rest \<longleftrightarrow> (\<exists>l. s = l @ rest \<and> ci_equal l lit)"
proof (induction lit s rule: ci_prefix.induct)
  case (1 s)
  show ?case by (auto simp: ci_equal_def)
next
  case (2 p ps)
  show ?case by (auto simp: ci_equal_def)
next
  case (3 p ps c cs)
  show ?case
  proof (cases "canon c = canon p")
    case True
    have "(\<exists>l. c # cs = l @ rest \<and> ci_equal l (p # ps))
            \<longleftrightarrow> (\<exists>l'. cs = l' @ rest \<and> ci_equal l' ps)"
    proof
      assume "\<exists>l. c # cs = l @ rest \<and> ci_equal l (p # ps)"
      then obtain l where l: "c # cs = l @ rest" "ci_equal l (p # ps)" by blast
      from l(2) obtain x l' where "l = x # l'" by (cases l) (auto simp: ci_equal_def)
      with l have "cs = l' @ rest \<and> ci_equal l' ps" by (simp add: ci_equal_def)
      then show "\<exists>l'. cs = l' @ rest \<and> ci_equal l' ps" by blast
    next
      assume "\<exists>l'. cs = l' @ rest \<and> ci_equal l' ps"
      then obtain l' where "cs = l' @ rest" "ci_equal l' ps" by blast
      with True have "c # cs = (c # l') @ rest \<and> ci_equal (c # l') (p # ps)"
        by (simp add: ci_equal_def)
      then show "\<exists>l. c # cs = l @ rest \<and> ci_equal l (p # ps)" by blast
    qed
    with True 3 show ?thesis by simp
  next
    case False
    have "\<not> (\<exists>l. c # cs = l @ rest \<and> ci_equal l (p # ps))"
    proof
      assume "\<exists>l. c # cs = l @ rest \<and> ci_equal l (p # ps)"
      then obtain l where l: "c # cs = l @ rest" "ci_equal l (p # ps)" by blast
      from l(2) obtain x l' where "l = x # l'" by (cases l) (auto simp: ci_equal_def)
      with l False show False by (simp add: ci_equal_def)
    qed
    with False show ?thesis by simp
  qed
qed

lemma digits_iff: "list_all is_digit d \<longleftrightarrow> set d \<subseteq> set ''0123456789''"
  unfolding list_all_iff is_digit_def by blast

lemma match_profiles_here_iff:
  "match_profiles_here s = Some d \<longleftrightarrow> digits_after ''steamcommunity.com/profiles/'' s [] d"
proof
  assume m: "match_profiles_here s = Some d"
  then obtain rest where rest: "ci_prefix ''steamcommunity.com/profiles/'' s = Some rest"
    by (auto simp: match_profiles_here_def split: option.splits)
  with m have d: "17 \<le> length rest" "list_all is_digit (take 17 rest)" "d = take 17 rest"
    by (auto simp: match_profiles_here_def split: if_splits)
  from rest obtain l where l: "s = l @ rest" "ci_equal l ''steamcommunity.com/profiles/''"
    unfolding ci_prefix_Some_iff by blast
  have "s = [] @ l @ d @ drop 17 rest" using l d by simp
  moreover have "seventeen_digits d" using d by (simp add: seventeen_digits_def digits_iff)
  ultimately show "digits_after ''steamcommunity.com/profiles/'' s [] d" unfolding digits_after_def using l(2) by blast
next
  assume "digits_after ''steamcommunity.com/profiles/'' s [] d"
  then obtain lit suf where p: "s = lit @ d @ suf" "ci_equal lit ''steamcommunity.com/profiles/''"
    "seventeen_digits d"
    unfolding digits_after_def by auto
  then have "ci_prefix ''steamcommunity.com/profiles/'' s = Some (d @ suf)"
    unfolding ci_prefix_Some_iff by blast
  moreover have "length d = 17" "list_all is_digit d"
    using p(3) by (simp_all add: seventeen_digits_def digits_iff)
  then have "17 \<le> length (d @ suf)" "take 17 (d @ suf) = d" "list_all is_digit d"
    by simp_all
  ultimately show "match_profiles_here s = Some d"
    unfolding match_profiles_here_def by (simp only: option.case if_True simp_thms)
qed

lemma token_chars_iff: "(\<forall>c\<in>set tok. token_char c) \<longleftrightarrow> set tok \<inter> set ''/?#'' = {}"
  unfolding token_char_def by blast

lemma takeWhile_eq_iff:
  "takeWhile P xs = ys \<longleftrightarrow> (\<exists>zs. xs = ys @ zs \<and> (\<forall>y\<in>set ys. P y) \<and> (zs = [] \<or> \<not> P (hd zs)))"
proof
  assume t: "takeWhile P xs = ys"
  have 1: "xs = ys @ dropWhile P xs" unfolding t [symmetric] by simp
  have 2: "\<forall>y\<in>set ys. P y" unfolding t [symmetric] by (auto dest: set_takeWhileD)
  have 3: "dropWhile P xs = [] \<or> \<not> P (hd (dropWhile P xs))"
    by (cases "dropWhile P xs = []") (simp_all add: hd_dropWhile)
  show "\<exists>zs. xs = ys @ zs \<and> (\<forall>y\<in>set ys. P y) \<and> (zs = [] \<or> \<not> P (hd zs))"
    by (rule exI [of _ "dropWhile P xs"]) (use 1 2 3 in simp)
next
  assume "\<exists>zs. xs = ys @ zs \<and> (\<forall>y\<in>set ys. P y) \<and> (zs = [] \<or> \<not> P (hd zs))"
  then obtain zs where z: "xs = ys @ zs" "\<forall>y\<in>set ys. P y" "zs = [] \<or> \<not> P (hd zs)" by blast
  show "takeWhile P xs = ys"
  proof (cases zs)
    case Nil
    with z show ?thesis by simp
  next
    case (Cons a as)
    with z show ?thesis by (simp add: takeWhile_tail)
  qed
qed

lemma match_vanity_here_iff:
  "match_vanity_here s = Some tok \<longleftrightarrow> whole_token_after ''steamcommunity.com/id/'' s [] tok"
proof
  assume m: "match_vanity_here s = Some tok"
  then obtain rest where rest: "ci_prefix ''steamcommunity.com/id/'' s = Some rest"
    by (auto simp: match_vanity_here_def split: option.splits)
  with m have t: "takeWhile token_char rest = tok" "tok \<noteq> []"
    by (auto simp: match_vanity_here_def split: if_splits)
  from rest obtain l where l: "s = l @ rest" "ci_equal l ''steamcommunity.com/id/''"
    unfolding ci_prefix_Some_iff by blast
  from t(1) obtain suf where suf: "rest = tok @ suf" "\<forall>c\<in>set tok. token_char c"
    "suf = [] \<or> \<not> token_char (hd suf)"
    unfolding takeWhile_eq_iff by blast
  have "s = [] @ l @ tok @ suf" using l suf by simp
  moreover have "set tok \<inter> set ''/?#'' = {}" using suf(2) by (simp only: token_chars_iff)
  moreover have "suf = [] \<or> hd suf \<in> set ''/?#''" using suf(3) by (auto simp: token_char_def)
  ultimately show "whole_token_after ''steamcommunity.com/id/'' s [] tok" unfolding whole_token_after_def using l(2) t(2) by blast
next
  assume "whole_token_after ''steamcommunity.com/id/'' s [] tok"
  then obtain lit suf where p: "s = lit @ tok @ suf" "ci_equal lit ''steamcommunity.com/id/''"
    "tok \<noteq> []" "set tok \<inter> set ''/?#'' = {}" "suf = [] \<or> hd suf \<in> set ''/?#''"
    unfolding whole_token_after_def by auto
  then have "ci_prefix ''steamcommunity.com/id/'' s = Some (tok @ suf)"
    unfolding ci_prefix_Some_iff by blast
  moreover have "takeWhile token_char (tok @ suf) = tok"
    unfolding takeWhile_eq_iff using p(4,5) by (auto simp: token_char_def)
  ultimately show "match_vanity_here s = Some tok"
    using p(3) by (simp add: match_vanity_here_def)
qed

lemma match_vanity_here_None:
  "match_vanity_here s = None \<Longrightarrow> \<not> token_after ''steamcommunity.com/id/'' s [] tok"
proof
  assume n: "match_vanity_here s = None" and "token_after ''steamcommunity.com/id/'' s [] tok"
  then obtain lit suf where p: "s = lit @ tok @ suf" "ci_equal lit ''steamcommunity.com/id/''"
    "tok \<noteq> []" "set tok \<inter> set ''/?#'' = {}"
    unfolding token_after_def by auto
  then have "ci_prefix ''steamcommunity.com/id/'' s = Some (tok @ suf)"
    unfolding ci_prefix_Some_iff by blast
  moreover have "token_char (hd tok)" using p(3,4) by (cases tok) (auto simp: token_char_def)
  then have "takeWhile token_char (tok @ suf) \<noteq> []" using p(3) by (cases tok) auto
  ultimately show False using n by (simp add: match_vanity_here_def)
qed

lemma digits_after_shift: "digits_after ''steamcommunity.com/profiles/'' (pre @ suf) pre d \<longleftrightarrow> digits_after ''steamcommunity.com/profiles/'' suf [] d"
  by (simp add: digits_after_def)

lemma token_after_shift: "token_after ''steamcommunity.com/id/'' (pre @ suf) pre tok \<longleftrightarrow> token_after ''steamcommunity.com/id/'' suf [] tok"
  by (simp add: token_after_def)

lemma whole_token_after_shift: "whole_token_after ''steamcommunity.com/id/'' (pre @ suf) pre tok \<longleftrightarrow> whole_token_after ''steamcommunity.com/id/'' suf [] tok"
  by (simp add: whole_token_after_def)

lemma digits_after_split: "digits_after ''steamcommunity.com/profiles/'' p pre d \<Longrightarrow> \<exists>suf. p = pre @ suf \<and> digits_after ''steamcommunity.com/profiles/'' suf [] d"
  unfolding digits_after_def by auto

lemma token_after_split: "token_after ''steamcommunity.com/id/'' p pre tok \<Longrightarrow> \<exists>suf. p = pre @ suf \<and> token_after ''steamcommunity.com/id/'' suf [] tok"
  unfolding token_after_def by auto

lemma cleanProfileUrl_string: "cleanProfileUrl (JStr s) = Inr (trim s)"
  by (simp add: cleanProfileUrl_def js_or_def)

lemma isSteamID64_iff: "isSteamID64 p \<longleftrightarrow> seventeen_digits p"
  by (simp add: isSteamID64_def seventeen_digits_def digits_iff)

lemma search_profiles_Some:
  assumes "regex_search match_profiles_here p = Some d"
  shows "\<exists>pre. digits_after ''steamcommunity.com/profiles/'' p pre d \<and> (\<forall>pre' d'. digits_after ''steamcommunity.com/profiles/'' p pre' d' \<longrightarrow> length pre \<le> length pre')"
proof -
  from regex_search_SomeD [OF assms] obtain pre suf where
    ps: "p = pre @ suf" "match_profiles_here suf = Some d"
    and left: "\<forall>pre' suf'. p = pre' @ suf' \<and> length pre' < length pre
                 \<longrightarrow> match_profiles_here suf' = None"
    by blast
  have here: "digits_after ''steamcommunity.com/profiles/'' p pre d"
    using ps by (simp add: digits_after_shift match_profiles_here_iff)
  have "length pre \<le> length pre'" if "digits_after ''steamcommunity.com/profiles/'' p pre' d'" for pre' d'
  proof (rule ccontr)
    assume "\<not> length pre \<le> length pre'"
    then have short: "length pre' < length pre" by simp
    from digits_after_split [OF that] obtain suf' where
      s: "p = pre' @ suf'" "digits_after ''steamcommunity.com/profiles/'' suf' [] d'" by blast
    from s(2) have "match_profiles_here suf' = Some d'" by (simp add: match_profiles_here_iff)
    moreover from left s(1) short have "match_profiles_here suf' = None" by blast
    ultimately show False by simp
  qed
  with here show ?thesis by blast
qed

lemma search_profiles_None:
  assumes "regex_search match_profiles_here p = None"
  shows "\<not> digits_after ''steamcommunity.com/profiles/'' p pre d"
proof
  assume "digits_after ''steamcommunity.com/profiles/'' p pre d"
  from digits_after_split [OF this] obtain suf where
    s: "p = pre @ suf" "digits_after ''steamcommunity.com/profiles/'' suf [] d" by blast
  from s(2) have "match_profiles_here suf = Some d" by (simp add: match_profiles_here_iff)
  moreover from regex_search_NoneD [OF assms s(1)] have "match_profiles_here suf = None" .
  ultimately show False by simp
qed

lemma search_vanity_Some:
  assumes "regex_search match_vanity_here p = Some tok"
  shows "\<exists>pre. whole_token_after ''steamcommunity.com/id/'' p pre tok \<and> (\<forall>pre' tok'. token_after ''steamcommunity.com/id/'' p pre' tok' \<longrightarrow> length pre \<le> length pre')"
proof -
  from regex_search_SomeD [OF assms] obtain pre suf where
    ps: "p = pre @ suf" "match_vanity_here suf = Some tok"
    and left: "\<forall>pre' suf'. p = pre' @ suf' \<and> length pre' < length pre
                 \<longrightarrow> match_vanity_here suf' = None"
    by blast
  have here: "whole_token_after ''steamcommunity.com/id/'' p pre tok"
    using ps by (simp add: whole_token_after_shift match_vanity_here_iff)
  have "length pre \<le> length pre'" if "token_after ''steamcommunity.com/id/'' p pre' tok'" for pre' tok'
  proof (rule ccontr)
    assume "\<not> length pre \<le> length pre'"
    then have short: "length pre' < length pre" by simp
    from token_after_split [OF that] obtain suf' where
      s: "p = pre' @ suf'" "token_after ''steamcommunity.com/id/'' suf' [] tok'" by blast
    from left s(1) short have "match_vanity_here suf' = None" by blast
    from match_vanity_here_None [OF this] s(2) show False by blast
  qed
  with here show ?thesis by blast
qed

lemma search_vanity_None:
  assumes "regex_search match_vanity_here p = None"
  shows "\<not> token_after ''steamcommunity.com/id/'' p pre tok"
proof
  assume "token_after ''steamcommunity.com/id/'' p pre tok"
  from token_after_split [OF this] obtain suf where
    s: "p = pre @ suf" "token_after ''steamcommunity.com/id/'' suf [] tok" by blast
  from regex_search_NoneD [OF assms s(1)] have "match_vanity_here suf = None" .
  from match_vanity_here_None [OF this] s(2) show False by blast
qed

lemma resolveVanity_calls:
  "snd (resolveVanity cfg net vanity) = [ResolveVanityURL (env_string (STEAM_API_KEY cfg)) vanity]"
  by (simp add: resolveVanity_def Let_def split: sum.splits)

subsection \<open>The orchestrator and substrings\<close>

lemma show_nat_APPID: "show_nat APPID = ''1609230''"
  by (simp add: APPID_def show_nat.simps digit_char_def)

lemma handleSync_array:
  "handleSync cfg net profile (JArr entries) =
     (case resolveSteamId64 cfg net profile of
        (Inl e, t1) \<Rightarrow> (Inl e, t1)
      | (Inr sid, t1) \<Rightarrow>
          (case getPlayerAchievements cfg net sid of
             (Inl e, t2) \<Rightarrow> (Inl e, t1 @ t2)
           | (Inr list, t2) \<Rightarrow>
               (case unlocked_loop (build_apiToKey entries) [] list of
                  Inl e \<Rightarrow> (Inl e, t1 @ t2)
                | Inr keys \<Rightarrow>
                    (Inr \<lparr>steamid64 = sid, unlocked = keys, count = length keys\<rparr>, t1 @ t2))))"
  by (simp add: handleSync_def js_or_def split: prod.splits sum.splits)

lemma build_apiToKey_skip:
  assumes "apiToKey_step (build_apiToKey before) e = build_apiToKey before"
  shows "build_apiToKey (before @ [e] @ after) = build_apiToKey (before @ after)"
  using assms by (simp add: build_apiToKey_def)

lemma apiToKey_step_ignored:
  assumes "opt_get e ''apiname'' \<in> {JUndefined, JStr []} \<or> opt_get e ''key'' \<in> {JUndefined, JStr []}"
  shows "apiToKey_step m e = m"
  using assms by (auto simp: apiToKey_step_def)

lemma contains_iff: "contains s t \<longleftrightarrow> (\<exists>pre suf. s = pre @ t @ suf)"
proof (induction s)
  case Nil
  show ?case by auto
next
  case (Cons c cs)
  show ?case
  proof
    assume "contains (c # cs) t"
    then consider "take (length t) (c # cs) = t" | "contains cs t" by auto
    then show "\<exists>pre suf. c # cs = pre @ t @ suf"
    proof cases
      case 1
      then have "c # cs = [] @ t @ drop (length t) (c # cs)"
        by (metis append_Nil append_take_drop_id)
      then show ?thesis by blast
    next
      case 2
      with Cons obtain pre suf where "cs = pre @ t @ suf" by blast
      then have "c # cs = (c # pre) @ t @ suf" by simp
      then show ?thesis by blast
    qed
  next
    assume "\<exists>pre suf. c # cs = pre @ t @ suf"
    then obtain pre suf where ps: "c # cs = pre @ t @ suf" by blast
    show "contains (c # cs) t"
    proof (cases pre)
      case Nil
      with ps have "take (length t) (c # cs) = t" by simp
      then show ?thesis by simp
    next
      case (Cons x xs)
      with ps have "cs = xs @ t @ suf" by simp
      with Cons.IH have "contains cs t" by blast
      then show ?thesis by simp
    qed
  qed
qed

subsection \<open>The API key and the result\<close>

lemma rekey_resolveVanity:
  "fst (resolveVanity (cfg\<lparr>STEAM_API_KEY := k'\<rparr>) (net \<circ> with_key (env_string (STEAM_API_KEY cfg))) vanity)
     = fst (resolveVanity cfg net vanity)"
  by (simp add: resolveVanity_def Let_def split: sum.splits)

lemma rekey_resolveSteamId64:
  "fst (resolveSteamId64 (cfg\<lparr>STEAM_API_KEY := k'\<rparr>) (net \<circ> with_key (env_string (STEAM_API_KEY cfg))) profile)
     = fst (resolveSteamId64 cfg net profile)"
  by (simp add: resolveSteamId64_def rekey_resolveVanity split: sum.splits option.splits)

lemma rekey_getPlayerAchievements:
  "fst (getPlayerAchievements (cfg\<lparr>STEAM_API_KEY := k'\<rparr>) (net \<circ> with_key (env_string (STEAM_API_KEY cfg))) sid)
     = fst (getPlayerAchievements cfg net sid)"
  by (simp add: getPlayerAchievements_def Let_def split: sum.splits jsval.splits)

lemma rekey_verifyTurnstileOrSkip:
  "verifyTurnstileOrSkip (cfg\<lparr>STEAM_API_KEY := k'\<rparr>) (net \<circ> with_key k) token ip
     = verifyTurnstileOrSkip cfg net token ip"
  by (simp add: verifyTurnstileOrSkip_def IS_PROD_def Let_def)

lemma fst_handleSync:
  "fst (handleSync cfg net profile client) =
     (case fst (resolveSteamId64 cfg net profile) of
        Inl e \<Rightarrow> Inl e
      | Inr sid \<Rightarrow>
          (case fst (getPlayerAchievements cfg net sid) of
             Inl e \<Rightarrow> Inl e
           | Inr list \<Rightarrow>
               (case iterate (js_or client (JArr [])) of
                  Inl e \<Rightarrow> Inl e
                | Inr entries \<Rightarrow>
                    (case unlocked_loop (build_apiToKey entries) [] list of
                       Inl e \<Rightarrow> Inl e
                     | Inr keys \<Rightarrow> Inr \<lparr>steamid64 = sid, unlocked = keys, count = length keys\<rparr>))))"
  by (simp add: handleSync_def split: prod.splits sum.splits)

lemma rekey_handleSync:
  "fst (handleSync (cfg\<lparr>STEAM_API_KEY := k'\<rparr>) (net \<circ> with_key (env_string (STEAM_API_KEY cfg))) profile client)
     = fst (handleSync cfg net profile client)"
  by (simp only: fst_handleSync rekey_resolveSteamId64 rekey_getPlayerAchievements)

lemma fst_post_steam_sync:
  "fst (post_steam_sync cfg net req) =
     (case to_string (js_or (opt_get (req_body req) ''profile'') (JStr [])) of
        Inl e \<Rightarrow> server_error e
      | Inr praw \<Rightarrow>
          (if trim praw = [] then missing_profile
           else
             (case to_string (js_or (opt_get (req_body req) ''turnstileToken'') (JStr [])) of
                Inl e \<Rightarrow> server_error e
              | Inr traw \<Rightarrow>
                  (case fst (verifyTurnstileOrSkip cfg net (trim traw) (req_ip req)) of
                     Inl e \<Rightarrow> server_error e
                   | Inr ts \<Rightarrow>
                       (if \<not> truthy (get_prop ts ''success'')
                        then \<lparr>code = 400,
                              json = JObj [(''error'', get_prop ts ''error''),
                                           (''details'', get_prop ts ''details'')]\<rparr>
                        else (case fst (handleSync cfg net (JStr (trim praw))
                                      (case opt_get (req_body req) ''client'' of
                                         JArr xs \<Rightarrow> JArr xs
                                       | _ \<Rightarrow> JArr [])) of
                                Inl e \<Rightarrow> server_error e
                              | Inr out \<Rightarrow> \<lparr>code = 200, json = sync_json out\<rparr>))))))"
  by (simp add: post_steam_sync_def Let_def split: prod.splits sum.splits)

lemma rekey_post_steam_sync:
  "fst (post_steam_sync (cfg\<lparr>STEAM_API_KEY := k'\<rparr>) (net \<circ> with_key (env_string (STEAM_API_KEY cfg))) req)
     = fst (post_steam_sync cfg net req)"
  by (simp only: fst_post_steam_sync rekey_handleSync rekey_verifyTurnstileOrSkip)

subsection \<open>Conversions on examples\<close>

lemmas number_eval =
  string_is_one_def str_numeric_mv_def unsigned_decimal_mv_def signed_integer_def based_val_def
  digit_below_def hex_val_def scale10_def rounds_to_one_def trim_def is_ws_def is_digit_def Let_def

lemma number_is_one_examples:
  "number_is_one (JNum 1) = Inr True"
  "number_is_one (JNum 0) = Inr False"
  "number_is_one (JBool True) = Inr True"
  "number_is_one JUndefined = Inr False"
  "number_is_one (JStr ''1'') = Inr True"
  "number_is_one (JStr '' 1.0 '') = Inr True"
  "number_is_one (JStr ''0x1'') = Inr True"
  "number_is_one (JStr ''10e-1'') = Inr True"
  "number_is_one (JStr ''1.5'') = Inr False"
  "number_is_one (JStr ''one'') = Inr False"
  "number_is_one (JStr []) = Inr False"
  "number_is_one (JArr [JStr ''1'']) = Inr True"
  "number_is_one (JArr [JNum 1, JNum 1]) = Inr False"
  "number_is_one (JObj [(''achieved'', JNum 1)]) = Inr False"
  "number_is_one (JObj [(''toString'', JNum 1)]) = Inl no_primitive"
  by (simp_all add: number_eval show_int_def show_nat.simps digit_char_def)

lemma to_string_examples:
  "to_string (JArr [JNum 1, JArr [JNum (- 20), JNull, JStr ''x''], JUndefined, JBool True])
     = Inr ''1,-20,,x,,true''"
  "to_string (JArr []) = Inr []"
  "to_string (JObj [(''a'', JNum 1)]) = Inr ''[object Object]''"
  "to_string (JArr [JObj [(''toString'', JNull)]]) = Inl no_primitive"
  by (simp_all add: show_int_def show_nat.simps digit_char_def)

subsection \<open>A whole request\<close>

text \<open>Production mode: the challenge passes, the vanity name resolves, one of two
  achievements is unlocked.\<close>

lemma post_steam_sync_example:
  "post_steam_sync prod_config
     (\<lambda>call. case call of
        SiteVerify secret token ip \<Rightarrow> Inr \<lparr>status = 200, parsed = Some (JObj [(''success'', JBool True)])\<rparr>
      | ResolveVanityURL k v \<Rightarrow>
          Inr \<lparr>status = 200,
               parsed = Some (JObj [(''response'', JObj [(''steamid'', JStr ''76561198000000000''),
                                                          (''success'', JNum 1)])])\<rparr>
      | GetPlayerAchievements k sid app \<Rightarrow>
          Inr \<lparr>status = 200,
               parsed = Some (stats_body
                 [JObj [(''apiname'', JStr ''ACH_A''), (''achieved'', JNum 1),
                        (''unlocktime'', JNum 1700000000)],
                  JObj [(''apiname'', JStr ''ACH_B''), (''achieved'', JNum 0),
                        (''unlocktime'', JNum 0)]])\<rparr>)
     \<lparr>req_body = JObj [(''profile'', JStr ''https://steamcommunity.com/id/gabe/''),
                       (''client'', JArr [entry_json (''ACH_A'', ''k1''), entry_json (''ACH_B'', ''k2'')]),
                       (''turnstileToken'', JStr ''tok'')],
      req_ip = Some ''203.0.113.7''\<rparr>
   = (\<lparr>code = 200,
       json = JObj [(''steamid64'', JStr ''76561198000000000''),
                    (''unlocked'', JArr [JStr ''k1'']), (''count'', JNum 1)]\<rparr>,
      [SiteVerify ''0x4AAAAAAA'' ''tok'' (Some ''203.0.113.7''),
       ResolveVanityURL ''0123456789ABCDEF'' ''gabe'',
       GetPlayerAchievements ''0123456789ABCDEF'' ''76561198000000000'' ''1609230''])"
  by (simp add: js_eval)

section \<open>Claims\<close>

subsection \<open>C1\<close>

text \<open>
  C1, as amended. When the profile resolves to \<open>sid\<close> and the stats call returns a list
  that stands for the achievement records \<open>achievements\<close>, \<^verbatim>\<open>handleSync\<close> on a manifest
  that stands for the entries \<open>manifest\<close> returns \<open>sid\<close>, the list \<open>unlocked\<close> and its length
  as \<open>count\<close>, where \<open>unlocked\<close> is built from the lookup of the manifest entries whose
  api-name and key are both non-empty, the last such entry of a duplicated api-name
  winning: the achievements are read in the order the stats API returned them, and the
  mapped key is appended for each record whose flag is \<open>1\<close> and whose api-name is in that
  lookup.
\<close>

theorem handleSync_unlocked:
  assumes "resolveSteamId64 cfg net profile = (Inr sid, t1)"
    and "getPlayerAchievements cfg net sid = (Inr list, t2)"
    and "list_all2 describes_record list achievements"
    and "list_all2 describes_entry entries manifest"
  shows "handleSync cfg net profile (JArr entries) =
           (Inr \<lparr>steamid64 = sid,
                 unlocked = map JStr (mapped_keys (last_wins (filter usable manifest)) achievements),
                 count = length (mapped_keys (last_wins (filter usable manifest)) achievements)\<rparr>,
            t1 @ t2)"
  using assms(1,2) by (simp add: handleSync_array unlocked_loop_described [OF assms(3,4)])

text \<open>The example of C1: achievements A (achieved), B (not achieved), C (achieved) and the
  manifest A \<open>\<mapsto>\<close> k1, C \<open>\<mapsto>\<close> k3 give \<open>unlocked = [k1, k3]\<close> and \<open>count = 2\<close>.\<close>

theorem handleSync_unlocked_witness:
  "handleSync dev_config
     (replies (stats_body (map record_json [(''A'', 1), (''B'', 0), (''C'', 1)])))
     (JStr ''76561198000000000'') (JArr (map entry_json [(''A'', ''k1''), (''C'', ''k3'')])) =
   (Inr \<lparr>steamid64 = JStr ''76561198000000000'', unlocked = [JStr ''k1'', JStr ''k3''], count = 2\<rparr>,
    [GetPlayerAchievements ''0123456789ABCDEF'' ''76561198000000000'' ''1609230''])"
proof -
  let ?net = "replies (stats_body (map record_json [(''A'', 1), (''B'', 0), (''C'', 1)]))"
  have r: "resolveSteamId64 dev_config ?net (JStr ''76561198000000000'') =
             (Inr (JStr ''76561198000000000''), [])"
    by (simp add: resolveSteamId64_def cleanProfileUrl_def js_or_def trim_def is_ws_def
        isSteamID64_def is_digit_def)
  have g: "getPlayerAchievements dev_config ?net (JStr ''76561198000000000'') =
             (Inr (map record_json [(''A'', 1), (''B'', 0), (''C'', 1)]),
              [GetPlayerAchievements ''0123456789ABCDEF'' ''76561198000000000'' ''1609230''])"
    by (simp add: getPlayerAchievements_def replies_def stats_body_def dev_config_def
        env_string_def show_nat_APPID parsed_or_null_def ok_def opt_get_def)
  show ?thesis
    using handleSync_unlocked [OF r g records_described
        entries_described [of "[(''A'', ''k1''), (''C'', ''k3'')]"]]
    by (simp add: mapped_keys_def last_wins_def usable_def List.map_filter_simps)
qed

text \<open>C1 as stated fails: with the manifest A \<open>\<mapsto>\<close> k1, A \<open>\<mapsto>\<close> empty key, the last entry
  for A carries the empty key, and the lookup of the claim gives the list with the empty
  key; \<^verbatim>\<open>handleSync\<close> returns k1.\<close>

theorem handleSync_last_entry_counterexample:
  "handleSync dev_config (replies (stats_body (map record_json [(''A'', 1)])))
     (JStr ''76561198000000000'') (JArr (map entry_json [(''A'', ''k1''), (''A'', '''')])) =
   (Inr \<lparr>steamid64 = JStr ''76561198000000000'', unlocked = [JStr ''k1''], count = 1\<rparr>,
    [GetPlayerAchievements ''0123456789ABCDEF'' ''76561198000000000'' ''1609230''])
   \<and> map JStr (mapped_keys (last_wins [(''A'', ''k1''), (''A'', '''')]) [(''A'', 1)]) = [JStr '''']
   \<and> fst (handleSync dev_config (replies (stats_body (map record_json [(''A'', 1)])))
          (JStr ''76561198000000000'') (JArr (map entry_json [(''A'', ''k1''), (''A'', '''')])))
     \<noteq> Inr \<lparr>steamid64 = JStr ''76561198000000000'',
              unlocked = map JStr (mapped_keys (last_wins [(''A'', ''k1''), (''A'', '''')]) [(''A'', 1)]),
              count = length (mapped_keys (last_wins [(''A'', ''k1''), (''A'', '''')]) [(''A'', 1)])\<rparr>"
  by (simp add: js_eval)

subsection \<open>C2\<close>

text \<open>
  C2, as amended. In production mode with the verification secret absent (and the API key
  present) the service starts: the secret is not looked at when the module is loaded. It
  is checked in the verifier, at every request. The verifier throws
  \<^verbatim>\<open>Missing TURNSTILE_SECRET_KEY in production\<close> without an outbound call, so no request is
  ever answered with a sync result and none causes an outbound call: a request with a
  non-empty profile gets status 500 with that message, and verification is never skipped.
\<close>

theorem missing_secret_checked_per_request:
  assumes "IS_PROD cfg" and "\<not> env_set (TURNSTILE_SECRET_KEY cfg)"
    and "env_set (STEAM_API_KEY cfg)"
  shows "startup cfg = Listening
    \<and> verifyTurnstileOrSkip cfg net token ip
          = (Inl (Error ''Missing TURNSTILE_SECRET_KEY in production''), [])
    \<and> snd (post_steam_sync cfg net req) = []
    \<and> code (fst (post_steam_sync cfg net req)) \<in> {400, 500}
    \<and> (opt_get (req_body req) ''profile'' = JStr p \<and> trim p \<noteq> []
          \<and> opt_get (req_body req) ''turnstileToken'' \<in> {JUndefined, JStr t} \<longrightarrow>
        post_steam_sync cfg net req =
          (\<lparr>code = 500,
            json = JObj [(''error'', JStr ''Missing TURNSTILE_SECRET_KEY in production'')]\<rparr>, []))"
proof -
  have v: "verifyTurnstileOrSkip cfg net tk i
             = (Inl (Error ''Missing TURNSTILE_SECRET_KEY in production''), [])" for tk i
    using assms by (simp add: verifyTurnstileOrSkip_def)
  have 1: "startup cfg = Listening" using assms by (simp add: startup_def)
  have 3: "snd (post_steam_sync cfg net req) = []"
    by (simp add: post_steam_sync_def v Let_def split: sum.splits)
  have 4: "code (fst (post_steam_sync cfg net req)) \<in> {400, 500}"
    by (simp add: post_steam_sync_def v Let_def server_error_def missing_profile_def
        split: sum.splits)
  have 5: "post_steam_sync cfg net req =
          (\<lparr>code = 500,
            json = JObj [(''error'', JStr ''Missing TURNSTILE_SECRET_KEY in production'')]\<rparr>, [])"
    if "opt_get (req_body req) ''profile'' = JStr p \<and> trim p \<noteq> []
          \<and> opt_get (req_body req) ''turnstileToken'' \<in> {JUndefined, JStr t}"
  proof -
    from that have "p \<noteq> []" by (auto simp: trim_def)
    with that show ?thesis
      by (auto simp: post_steam_sync_def v Let_def server_error_def js_or_def)
  qed
  from 1 v 3 4 5 show ?thesis by blast
qed

text \<open>The service in production without the secret: it starts, a request with a profile
  gets status 500 and no call goes out.\<close>

theorem missing_secret_checked_per_request_witness:
  "startup prod_no_secret = Listening
   \<and> post_steam_sync prod_no_secret unreachable
        \<lparr>req_body = JObj [(''profile'', JStr ''gabe''), (''turnstileToken'', JStr ''tok'')],
         req_ip = Some ''203.0.113.7''\<rparr>
      = (\<lparr>code = 500,
          json = JObj [(''error'', JStr ''Missing TURNSTILE_SECRET_KEY in production'')]\<rparr>, [])"
proof -
  let ?req = "\<lparr>req_body = JObj [(''profile'', JStr ''gabe''), (''turnstileToken'', JStr ''tok'')],
                req_ip = Some ''203.0.113.7''\<rparr>"
  have a: "IS_PROD prod_no_secret" "\<not> env_set (TURNSTILE_SECRET_KEY prod_no_secret)"
    "env_set (STEAM_API_KEY prod_no_secret)"
    by (simp_all add: IS_PROD_def env_set_def prod_no_secret_def)
  have b: "opt_get (req_body ?req) ''profile'' = JStr ''gabe'' \<and> trim ''gabe'' \<noteq> []
          \<and> opt_get (req_body ?req) ''turnstileToken'' \<in> {JUndefined, JStr ''tok''}"
    by (simp add: opt_get_def trim_def is_ws_def)
  from missing_secret_checked_per_request [OF a, of unreachable _ _ ?req "''gabe''" "''tok''"] b
  show ?thesis by blast
qed

text \<open>C2 as stated fails: without the secret the module does not exit when it is loaded,
  and the request is refused by the check made while it is handled.\<close>

theorem missing_secret_startup_counterexample:
  "startup prod_no_secret \<noteq> Exited 1
   \<and> startup prod_no_secret = Listening
   \<and> post_steam_sync prod_no_secret unreachable
        \<lparr>req_body = JObj [(''profile'', JStr ''gabe'')], req_ip = None\<rparr>
      = (\<lparr>code = 500,
          json = JObj [(''error'', JStr ''Missing TURNSTILE_SECRET_KEY in production'')]\<rparr>, [])
   \<and> post_steam_sync prod_no_secret unreachable \<lparr>req_body = JObj [], req_ip = None\<rparr>
      = (\<lparr>code = 400, json = JObj [(''error'', JStr ''Missing profile'')]\<rparr>, [])"
  by (simp add: js_eval)

subsection \<open>C3\<close>

text \<open>
  C3, as amended. \<^verbatim>\<open>resolveSteamId64\<close> takes its steps in order, the first that applies
  deciding. Let \<open>p\<close> be the trimmed input.
  \<^enum> If \<open>p\<close> is exactly seventeen decimal digits, the result is \<open>p\<close>, with no outbound call.
  \<^enum> Otherwise, if \<open>p\<close> contains the host and path \<^verbatim>\<open>steamcommunity.com/profiles/\<close> (in any
    case) followed by seventeen digits, the result is the seventeen digits of the leftmost
    such place, with no outbound call.
  \<^enum> Otherwise, if \<open>p\<close> contains the host and path \<^verbatim>\<open>steamcommunity.com/id/\<close> (in any case)
    followed by a non-empty token free of \<^verbatim>\<open>/\<close>, \<^verbatim>\<open>?\<close> and \<^verbatim>\<open>#\<close>, the result is that of
    vanity resolution on exactly the token of the leftmost such place (the whole run up to
    the next of the three characters or the end), the one outbound call being the one for
    it.
  \<^enum> Otherwise the result is that of vanity resolution on all of \<open>p\<close>; this is also the case of
    a \<^verbatim>\<open>/profiles/\<close> or \<^verbatim>\<open>/id/\<close> path under any other host.
\<close>

theorem resolveSteamId64_steps:
  "(seventeen_digits (trim s) \<longrightarrow>
      resolveSteamId64 cfg net (JStr s) = (Inr (JStr (trim s)), []))
   \<and> (\<not> seventeen_digits (trim s)
        \<and> (\<exists>pre d. digits_after ''steamcommunity.com/profiles/'' (trim s) pre d) \<longrightarrow>
        (\<exists>pre d. digits_after ''steamcommunity.com/profiles/'' (trim s) pre d
           \<and> (\<forall>pre' d'. digits_after ''steamcommunity.com/profiles/'' (trim s) pre' d'
                  \<longrightarrow> length pre \<le> length pre')
           \<and> resolveSteamId64 cfg net (JStr s) = (Inr (JStr d), [])))
   \<and> (\<not> seventeen_digits (trim s)
        \<and> \<not> (\<exists>pre d. digits_after ''steamcommunity.com/profiles/'' (trim s) pre d)
        \<and> (\<exists>pre tok. token_after ''steamcommunity.com/id/'' (trim s) pre tok) \<longrightarrow>
        (\<exists>pre tok. whole_token_after ''steamcommunity.com/id/'' (trim s) pre tok
           \<and> (\<forall>pre' tok'. token_after ''steamcommunity.com/id/'' (trim s) pre' tok'
                  \<longrightarrow> length pre \<le> length pre')
           \<and> resolveSteamId64 cfg net (JStr s) = resolveVanity cfg net tok
           \<and> snd (resolveSteamId64 cfg net (JStr s))
               = [ResolveVanityURL (env_string (STEAM_API_KEY cfg)) tok]))
   \<and> (\<not> seventeen_digits (trim s)
        \<and> \<not> (\<exists>pre d. digits_after ''steamcommunity.com/profiles/'' (trim s) pre d)
        \<and> \<not> (\<exists>pre tok. token_after ''steamcommunity.com/id/'' (trim s) pre tok) \<longrightarrow>
        resolveSteamId64 cfg net (JStr s) = resolveVanity cfg net (trim s)
        \<and> snd (resolveSteamId64 cfg net (JStr s))
            = [ResolveVanityURL (env_string (STEAM_API_KEY cfg)) (trim s)])"
proof -
  have step1: "resolveSteamId64 cfg net (JStr s) = (Inr (JStr (trim s)), [])"
    if "seventeen_digits (trim s)"
    using that by (simp add: resolveSteamId64_def cleanProfileUrl_string isSteamID64_iff)
  have step2: "\<exists>pre d. digits_after ''steamcommunity.com/profiles/'' (trim s) pre d
           \<and> (\<forall>pre' d'. digits_after ''steamcommunity.com/profiles/'' (trim s) pre' d' \<longrightarrow> length pre \<le> length pre')
           \<and> resolveSteamId64 cfg net (JStr s) = (Inr (JStr d), [])"
    if a: "\<not> seventeen_digits (trim s) \<and> (\<exists>pre d. digits_after ''steamcommunity.com/profiles/'' (trim s) pre d)"
  proof -
  from a obtain d0 where "regex_search match_profiles_here (trim s) = Some d0"
    using search_profiles_None [of "trim s"] by (cases "regex_search match_profiles_here (trim s)") auto
  moreover from search_profiles_Some [OF this] obtain pre where
    "digits_after ''steamcommunity.com/profiles/'' (trim s) pre d0"
    "\<forall>pre' d'. digits_after ''steamcommunity.com/profiles/'' (trim s) pre' d' \<longrightarrow> length pre \<le> length pre'" by blast
  moreover have "resolveSteamId64 cfg net (JStr s) = (Inr (JStr d0), [])"
    using a calculation(1) by (simp add: resolveSteamId64_def cleanProfileUrl_string isSteamID64_iff)
  ultimately show ?thesis by blast
  qed
  have step3: "\<exists>pre tok. whole_token_after ''steamcommunity.com/id/'' (trim s) pre tok
           \<and> (\<forall>pre' tok'. token_after ''steamcommunity.com/id/'' (trim s) pre' tok' \<longrightarrow> length pre \<le> length pre')
           \<and> resolveSteamId64 cfg net (JStr s) = resolveVanity cfg net tok
           \<and> snd (resolveSteamId64 cfg net (JStr s))
               = [ResolveVanityURL (env_string (STEAM_API_KEY cfg)) tok]"
    if a: "\<not> seventeen_digits (trim s) \<and> \<not> (\<exists>pre d. digits_after ''steamcommunity.com/profiles/'' (trim s) pre d)
        \<and> (\<exists>pre tok. token_after ''steamcommunity.com/id/'' (trim s) pre tok)"
  proof -
  have none: "regex_search match_profiles_here (trim s) = None"
  proof (cases "regex_search match_profiles_here (trim s)")
    case (Some d)
    from search_profiles_Some [OF this] a show ?thesis by blast
  qed simp
  obtain t0 where t0: "regex_search match_vanity_here (trim s) = Some t0"
    using a search_vanity_None [of "trim s"] by (cases "regex_search match_vanity_here (trim s)") auto
  from search_vanity_Some [OF this] obtain pre where
    pre: "whole_token_after ''steamcommunity.com/id/'' (trim s) pre t0"
    "\<forall>pre' tok'. token_after ''steamcommunity.com/id/'' (trim s) pre' tok' \<longrightarrow> length pre \<le> length pre'" by blast
  have r: "resolveSteamId64 cfg net (JStr s) = resolveVanity cfg net t0"
    using a none t0 by (simp add: resolveSteamId64_def cleanProfileUrl_string isSteamID64_iff)
  then have "snd (resolveSteamId64 cfg net (JStr s))
               = [ResolveVanityURL (env_string (STEAM_API_KEY cfg)) t0]"
    by (simp add: resolveVanity_calls)
  with pre r show ?thesis by blast
  qed
  have step4: "resolveSteamId64 cfg net (JStr s) = resolveVanity cfg net (trim s)
        \<and> snd (resolveSteamId64 cfg net (JStr s))
            = [ResolveVanityURL (env_string (STEAM_API_KEY cfg)) (trim s)]"
    if a: "\<not> seventeen_digits (trim s) \<and> \<not> (\<exists>pre d. digits_after ''steamcommunity.com/profiles/'' (trim s) pre d)
        \<and> \<not> (\<exists>pre tok. token_after ''steamcommunity.com/id/'' (trim s) pre tok)"
  proof -
  have none: "regex_search match_profiles_here (trim s) = None"
  proof (cases "regex_search match_profiles_here (trim s)")
    case (Some d)
    from search_profiles_Some [OF this] a show ?thesis by blast
  qed simp
  have none': "regex_search match_vanity_here (trim s) = None"
  proof (cases "regex_search match_vanity_here (trim s)")
    case (Some t)
    from search_vanity_Some [OF this] obtain pre where "whole_token_after ''steamcommunity.com/id/'' (trim s) pre t" by blast
    then have "token_after ''steamcommunity.com/id/'' (trim s) pre t" by (auto simp: whole_token_after_def token_after_def)
    with a show ?thesis by blast
  qed simp
  have r: "resolveSteamId64 cfg net (JStr s) = resolveVanity cfg net (trim s)"
    using a none none' by (simp add: resolveSteamId64_def cleanProfileUrl_string isSteamID64_iff)
  then show ?thesis by (simp add: resolveVanity_calls)
  qed
  show ?thesis
    apply (intro conjI)
       apply (rule impI, erule step1)
      apply (rule impI, erule step2)
     apply (rule impI, erule step3)
    apply (rule impI, erule step4)
    done
qed

text \<open>The four steps at four inputs: seventeen digits between blanks; a profiles URL in
  mixed case; an id URL in mixed case, whose vanity name the directory resolves; a bare
  vanity name, which it resolves.\<close>

theorem resolveSteamId64_steps_witness:
  "resolveSteamId64 dev_config unreachable (JStr '' 76561198000000000 '')
     = (Inr (JStr ''76561198000000000''), [])
   \<and> (\<exists>pre. digits_after ''steamcommunity.com/profiles/'' ''https://SteamCommunity.com/Profiles/76561198000000000/home'' pre
                ''76561198000000000'')
   \<and> resolveSteamId64 dev_config unreachable
         (JStr ''https://SteamCommunity.com/Profiles/76561198000000000/home'')
       = (Inr (JStr ''76561198000000000''), [])
   \<and> (\<exists>pre. whole_token_after ''steamcommunity.com/id/'' ''https://steamcommunity.com/ID/gabe/?l=en'' pre ''gabe'')
   \<and> resolveSteamId64 dev_config
         (replies (JObj [(''response'', JObj [(''success'', JNum 1),
                                              (''steamid'', JStr ''76561198000000000'')])]))
         (JStr ''https://steamcommunity.com/ID/gabe/?l=en'')
       = (Inr (JStr ''76561198000000000''), [ResolveVanityURL ''0123456789ABCDEF'' ''gabe''])
   \<and> resolveSteamId64 dev_config
         (replies (JObj [(''response'', JObj [(''success'', JNum 1),
                                              (''steamid'', JStr ''76561198000000000'')])]))
         (JStr '' gabe '')
       = (Inr (JStr ''76561198000000000''), [ResolveVanityURL ''0123456789ABCDEF'' ''gabe''])"
proof -
  let ?net = "replies (JObj [(''response'', JObj [(''success'', JNum 1),
                                                  (''steamid'', JStr ''76561198000000000'')])])"
  let ?u2 = "''https://SteamCommunity.com/Profiles/76561198000000000/home''"
  let ?u3 = "''https://steamcommunity.com/ID/gabe/?l=en''"
  have t1: "trim '' 76561198000000000 '' = ''76561198000000000''"
    and t2: "trim ?u2 = ?u2" and t3: "trim ?u3 = ?u3" and t4: "trim '' gabe '' = ''gabe''"
    by (simp_all add: trim_def is_ws_def)
  have d1: "seventeen_digits ''76561198000000000''"
    by (simp add: seventeen_digits_def)
  have n2: "\<not> seventeen_digits ?u2" and n3: "\<not> seventeen_digits ?u3"
    and n4: "\<not> seventeen_digits ''gabe''"
    by (simp_all add: seventeen_digits_def)
  have s2: "regex_search match_profiles_here ?u2 = Some ''76561198000000000''"
    by (simp add: match_profiles_here_def canon_def is_digit_def)
  have s3: "regex_search match_profiles_here ?u3 = None"
    and s4: "regex_search match_profiles_here ''gabe'' = None"
    by (simp_all add: match_profiles_here_def canon_def is_digit_def)
  have v3: "regex_search match_vanity_here ?u3 = Some ''gabe''"
    by (simp add: match_vanity_here_def canon_def token_char_def)
  have v4: "regex_search match_vanity_here ''gabe'' = None"
    by (simp add: match_vanity_here_def canon_def token_char_def)
  from search_profiles_Some [OF s2] have p2: "\<exists>pre. digits_after ''steamcommunity.com/profiles/'' ?u2 pre ''76561198000000000''"
    by blast
  from search_vanity_Some [OF v3] have i3: "\<exists>pre. whole_token_after ''steamcommunity.com/id/'' ?u3 pre ''gabe''" by blast
  then have i3': "\<exists>pre tok. token_after ''steamcommunity.com/id/'' ?u3 pre tok" unfolding whole_token_after_def token_after_def by blast
  have np3: "\<not> (\<exists>pre d. digits_after ''steamcommunity.com/profiles/'' ?u3 pre d)" using search_profiles_None [OF s3] by blast
  have np4: "\<not> (\<exists>pre d. digits_after ''steamcommunity.com/profiles/'' ''gabe'' pre d)" using search_profiles_None [OF s4] by blast
  have ni4: "\<not> (\<exists>pre tok. token_after ''steamcommunity.com/id/'' ''gabe'' pre tok)" using search_vanity_None [OF v4] by blast
  have r: "resolveVanity dev_config ?net ''gabe''
             = (Inr (JStr ''76561198000000000''), [ResolveVanityURL ''0123456789ABCDEF'' ''gabe''])"
    by (simp add: resolveVanity_def replies_def dev_config_def env_string_def ok_def
        parsed_or_null_def opt_get_def Let_def)
  have c1: "resolveSteamId64 dev_config unreachable (JStr '' 76561198000000000 '')
              = (Inr (JStr ''76561198000000000''), [])"
    using resolveSteamId64_steps [of "'' 76561198000000000 ''" dev_config unreachable] d1
    by (simp only: t1 simp_thms)
  have "\<exists>pre d. digits_after ''steamcommunity.com/profiles/'' ?u2 pre d
          \<and> resolveSteamId64 dev_config unreachable (JStr ?u2) = (Inr (JStr d), [])"
    using resolveSteamId64_steps [of ?u2 dev_config unreachable] n2 p2
    unfolding t2 by blast
  then obtain pre d where pd: "digits_after ''steamcommunity.com/profiles/'' ?u2 pre d"
    "resolveSteamId64 dev_config unreachable (JStr ?u2) = (Inr (JStr d), [])" by blast
  have "resolveSteamId64 dev_config unreachable (JStr ?u2) = (Inr (JStr ''76561198000000000''), [])"
    using s2 n2 by (simp add: resolveSteamId64_def cleanProfileUrl_string t2 isSteamID64_iff)
  with pd have c2: "resolveSteamId64 dev_config unreachable (JStr ?u2)
                      = (Inr (JStr ''76561198000000000''), [])" by simp
  have "\<exists>pre tok. whole_token_after ''steamcommunity.com/id/'' ?u3 pre tok
          \<and> resolveSteamId64 dev_config ?net (JStr ?u3) = resolveVanity dev_config ?net tok"
    using resolveSteamId64_steps [of ?u3 dev_config ?net] n3 np3 i3'
    unfolding t3 by blast
  then obtain pre' tok where "whole_token_after ''steamcommunity.com/id/'' ?u3 pre' tok"
    "resolveSteamId64 dev_config ?net (JStr ?u3) = resolveVanity dev_config ?net tok" by blast
  have "resolveSteamId64 dev_config ?net (JStr ?u3) = resolveVanity dev_config ?net ''gabe''"
    using s3 v3 n3 by (simp add: resolveSteamId64_def cleanProfileUrl_string t3 isSteamID64_iff)
  then have c3: "resolveSteamId64 dev_config ?net (JStr ?u3)
              = (Inr (JStr ''76561198000000000''), [ResolveVanityURL ''0123456789ABCDEF'' ''gabe''])"
    using r by simp
  have "resolveSteamId64 dev_config ?net (JStr '' gabe '') = resolveVanity dev_config ?net ''gabe''"
    using resolveSteamId64_steps [of "'' gabe ''" dev_config ?net] n4 np4 ni4
    unfolding t4 by blast
  then have c4: "resolveSteamId64 dev_config ?net (JStr '' gabe '')
              = (Inr (JStr ''76561198000000000''), [ResolveVanityURL ''0123456789ABCDEF'' ''gabe''])"
    using r by simp
  from c1 p2 c2 i3 c3 c4 show ?thesis by (intro conjI)
qed

text \<open>C3 as stated fails. The claim's patterns \<^verbatim>\<open>.../profiles/<17 digits>\<close> and
  \<^verbatim>\<open>.../id/<token>\<close> name no host. An input with such a path under another host has the
  claimed form, but the resolver neither returns the seventeen digits nor resolves the
  token: it sends the whole input to vanity resolution.\<close>

theorem resolveSteamId64_other_host_counterexample:
  "digits_after ''/profiles/'' ''https://example.com/profiles/76561198000000000''
     ''https://example.com'' ''76561198000000000''
   \<and> resolveSteamId64 dev_config unreachable
         (JStr ''https://example.com/profiles/76561198000000000'')
       = (Inl (TypeError ''fetch failed''),
          [ResolveVanityURL ''0123456789ABCDEF''
             ''https://example.com/profiles/76561198000000000''])
   \<and> resolveSteamId64 dev_config unreachable
         (JStr ''https://example.com/profiles/76561198000000000'')
       \<noteq> (Inr (JStr ''76561198000000000''), [])
   \<and> whole_token_after ''/id/'' ''https://example.com/id/gabe'' ''https://example.com'' ''gabe''
   \<and> snd (resolveSteamId64 dev_config unreachable (JStr ''https://example.com/id/gabe''))
       = [ResolveVanityURL ''0123456789ABCDEF'' ''https://example.com/id/gabe'']
   \<and> snd (resolveSteamId64 dev_config unreachable (JStr ''https://example.com/id/gabe''))
       \<noteq> [ResolveVanityURL ''0123456789ABCDEF'' ''gabe'']"
proof -
  let ?u = "''https://example.com/profiles/76561198000000000''"
  let ?v = "''https://example.com/id/gabe''"
  have "?u = ''https://example.com'' @ ''/profiles/'' @ ''76561198000000000'' @ []
          \<and> ci_equal ''/profiles/'' ''/profiles/'' \<and> seventeen_digits ''76561198000000000''"
    by (simp add: ci_equal_def seventeen_digits_def)
  then have f1: "digits_after ''/profiles/'' ?u ''https://example.com'' ''76561198000000000''"
    unfolding digits_after_def by blast
  have "?v = ''https://example.com'' @ ''/id/'' @ ''gabe'' @ []
          \<and> ci_equal ''/id/'' ''/id/'' \<and> ''gabe'' \<noteq> [] \<and> set ''gabe'' \<inter> set ''/?#'' = {}
          \<and> ([] = [] \<or> hd [] \<in> set ''/?#'')"
    by (simp add: ci_equal_def)
  then have f2: "whole_token_after ''/id/'' ?v ''https://example.com'' ''gabe''"
    unfolding whole_token_after_def by blast
  have r1: "resolveSteamId64 dev_config unreachable (JStr ?u)
              = (Inl (TypeError ''fetch failed''), [ResolveVanityURL ''0123456789ABCDEF'' ?u])"
    by (simp add: js_eval)
  have r2: "resolveSteamId64 dev_config unreachable (JStr ?v)
              = (Inl (TypeError ''fetch failed''), [ResolveVanityURL ''0123456789ABCDEF'' ?v])"
    by (simp add: js_eval)
  from f1 f2 r1 r2 show ?thesis by simp
qed

subsection \<open>C4\<close>

text \<open>
  C4, as amended. For an account id \<open>sid\<close>, \<^verbatim>\<open>getPlayerAchievements\<close> makes the one stats
  call. It fails if and only if the call itself fails, or the HTTP status is not a success
  status, or the body is not parseable JSON, or the top-level \<^verbatim>\<open>playerstats\<close> value is absent
  or falsy, or \<^verbatim>\<open>playerstats\<close> carries a truthy \<^verbatim>\<open>error\<close> field; an error that is a non-empty
  string is the message of the failure, verbatim. In every other case, an \<^verbatim>\<open>error\<close> field
  that is present but empty (or otherwise falsy) included, it returns the achievements
  list, and the empty list when the \<^verbatim>\<open>achievements\<close> field is absent or not a list.
\<close>

theorem getPlayerAchievements_outcomes:
  assumes "call = GetPlayerAchievements (env_string (STEAM_API_KEY cfg)) sid ''1609230''"
  shows "snd (getPlayerAchievements cfg net (JStr sid)) = [call]
    \<and> (net call = Inl e \<longrightarrow> fst (getPlayerAchievements cfg net (JStr sid)) = Inl e)
    \<and> (net call = Inr res \<longrightarrow>
         (isl (fst (getPlayerAchievements cfg net (JStr sid)))
            \<longleftrightarrow> \<not> ok res \<or> parsed res = None \<or> \<not> truthy (playerstats_of res)
                \<or> truthy (get_prop (playerstats_of res) ''error''))
         \<and> (\<not> ok res \<longrightarrow>
              fst (getPlayerAchievements cfg net (JStr sid))
                = Inl (Error (''Steam API error (HTTP '' @ show_nat (status res) @ '')'')))
         \<and> (ok res \<and> (parsed res = None \<or> \<not> truthy (playerstats_of res)) \<longrightarrow>
              fst (getPlayerAchievements cfg net (JStr sid))
                = Inl (Error ''Unexpected Steam response (missing playerstats).''))
         \<and> (ok res \<and> truthy (playerstats_of res)
               \<and> get_prop (playerstats_of res) ''error'' = JStr m \<and> m \<noteq> [] \<longrightarrow>
              fst (getPlayerAchievements cfg net (JStr sid)) = Inl (Error m))
         \<and> (ok res \<and> truthy (playerstats_of res)
               \<and> \<not> truthy (get_prop (playerstats_of res) ''error'') \<longrightarrow>
              fst (getPlayerAchievements cfg net (JStr sid))
                = Inr (case get_prop (playerstats_of res) ''achievements'' of
                         JArr achievements \<Rightarrow> achievements
                       | _ \<Rightarrow> [])))"
proof -
  have c: "GetPlayerAchievements (env_string (STEAM_API_KEY cfg)) sid (show_nat APPID) = call"
    using assms by (simp add: show_nat_APPID)
  have unparsed: "\<not> truthy (playerstats_of res)" if "parsed res = None"
    using that by (simp add: playerstats_of_def parsed_or_null_def opt_get_def)
  have 1: "snd (getPlayerAchievements cfg net (JStr sid)) = [call]"
    by (simp add: getPlayerAchievements_def c Let_def split: sum.splits jsval.splits)
  have 2: "fst (getPlayerAchievements cfg net (JStr sid)) = Inl e" if "net call = Inl e"
    using that by (simp add: getPlayerAchievements_def c)
  have 3: "isl (fst (getPlayerAchievements cfg net (JStr sid)))
            \<longleftrightarrow> \<not> ok res \<or> parsed res = None \<or> \<not> truthy (playerstats_of res)
                \<or> truthy (get_prop (playerstats_of res) ''error'')" if "net call = Inr res"
    using that unparsed
    by (auto simp: getPlayerAchievements_def c Let_def playerstats_of_def
        split: sum.splits jsval.splits)
  have 4: "fst (getPlayerAchievements cfg net (JStr sid))
                = Inl (Error (''Steam API error (HTTP '' @ show_nat (status res) @ '')''))"
    if "net call = Inr res" "\<not> ok res"
    using that by (simp add: getPlayerAchievements_def c Let_def)
  have 5: "fst (getPlayerAchievements cfg net (JStr sid))
                = Inl (Error ''Unexpected Steam response (missing playerstats).'')"
    if "net call = Inr res" "ok res \<and> (parsed res = None \<or> \<not> truthy (playerstats_of res))"
    using that unparsed
    by (auto simp: getPlayerAchievements_def c Let_def playerstats_of_def)
  have 6: "fst (getPlayerAchievements cfg net (JStr sid)) = Inl (Error m)"
    if "net call = Inr res" "ok res \<and> truthy (playerstats_of res)
               \<and> get_prop (playerstats_of res) ''error'' = JStr m \<and> m \<noteq> []"
    using that by (simp add: getPlayerAchievements_def c Let_def playerstats_of_def)
  have 7: "fst (getPlayerAchievements cfg net (JStr sid))
                = Inr (case get_prop (playerstats_of res) ''achievements'' of
                         JArr achievements \<Rightarrow> achievements
                       | _ \<Rightarrow> [])"
    if "net call = Inr res" "ok res \<and> truthy (playerstats_of res)
               \<and> \<not> truthy (get_prop (playerstats_of res) ''error'')"
    using that
    by (simp add: getPlayerAchievements_def c Let_def playerstats_of_def split: jsval.splits)
  from 1 2 3 4 5 6 7 show ?thesis by blast
qed

text \<open>Four answers of the stats API: a private profile (an error message), a body without
  \<^verbatim>\<open>achievements\<close>, a body that is not JSON, and status 403.\<close>

theorem getPlayerAchievements_outcomes_witness:
  "getPlayerAchievements dev_config
     (replies (JObj [(''playerstats'', JObj [(''error'', JStr ''Profile is not public''),
                                             (''success'', JBool False)])]))
     (JStr ''76561198000000000'')
   = (Inl (Error ''Profile is not public''),
      [GetPlayerAchievements ''0123456789ABCDEF'' ''76561198000000000'' ''1609230''])
   \<and> getPlayerAchievements dev_config
     (replies (JObj [(''playerstats'', JObj [(''gameName'', JStr ''Scarlet Hollow'')])]))
     (JStr ''76561198000000000'')
   = (Inr [], [GetPlayerAchievements ''0123456789ABCDEF'' ''76561198000000000'' ''1609230''])
   \<and> getPlayerAchievements dev_config (replies_text 200) (JStr ''76561198000000000'')
   = (Inl (Error ''Unexpected Steam response (missing playerstats).''),
      [GetPlayerAchievements ''0123456789ABCDEF'' ''76561198000000000'' ''1609230''])
   \<and> getPlayerAchievements dev_config (replies_text 403) (JStr ''76561198000000000'')
   = (Inl (Error ''Steam API error (HTTP 403)''),
      [GetPlayerAchievements ''0123456789ABCDEF'' ''76561198000000000'' ''1609230''])"
proof -
  let ?call = "GetPlayerAchievements ''0123456789ABCDEF'' ''76561198000000000'' ''1609230''"
  let ?b1 = "JObj [(''playerstats'', JObj [(''error'', JStr ''Profile is not public''),
                                           (''success'', JBool False)])]"
  let ?b2 = "JObj [(''playerstats'', JObj [(''gameName'', JStr ''Scarlet Hollow'')])]"
  have c: "?call = GetPlayerAchievements (env_string (STEAM_API_KEY dev_config))
                     ''76561198000000000'' ''1609230''"
    by (simp add: env_string_def dev_config_def)
  note t = getPlayerAchievements_outcomes [OF c]
  have n1: "replies ?b1 ?call = Inr \<lparr>status = 200, parsed = Some ?b1\<rparr>"
    and n2: "replies ?b2 ?call = Inr \<lparr>status = 200, parsed = Some ?b2\<rparr>"
    and n3: "replies_text 200 ?call = Inr \<lparr>status = 200, parsed = None\<rparr>"
    and n4: "replies_text 403 ?call = Inr \<lparr>status = 403, parsed = None\<rparr>"
    by (simp_all add: replies_def replies_text_def)
  have h1: "ok \<lparr>status = 200, parsed = Some ?b1\<rparr>
              \<and> truthy (playerstats_of \<lparr>status = 200, parsed = Some ?b1\<rparr>)
              \<and> get_prop (playerstats_of \<lparr>status = 200, parsed = Some ?b1\<rparr>) ''error''
                   = JStr ''Profile is not public'' \<and> ''Profile is not public'' \<noteq> []"
    by (simp add: ok_def playerstats_of_def parsed_or_null_def opt_get_def)
  have h2: "ok \<lparr>status = 200, parsed = Some ?b2\<rparr>
              \<and> truthy (playerstats_of \<lparr>status = 200, parsed = Some ?b2\<rparr>)
              \<and> \<not> truthy (get_prop (playerstats_of \<lparr>status = 200, parsed = Some ?b2\<rparr>) ''error'')"
    by (simp add: ok_def playerstats_of_def parsed_or_null_def opt_get_def)
  have h3: "ok \<lparr>status = 200, parsed = None\<rparr>
              \<and> (parsed \<lparr>status = 200, parsed = None\<rparr> = None
                   \<or> \<not> truthy (playerstats_of \<lparr>status = 200, parsed = None\<rparr>))"
    by (simp add: ok_def)
  have h4: "\<not> ok \<lparr>status = 403, parsed = None\<rparr>" by (simp add: ok_def)
  have s: "show_nat 403 = ''403''" by (simp add: show_nat.simps digit_char_def)
  have a2: "get_prop (playerstats_of \<lparr>status = 200, parsed = Some ?b2\<rparr>) ''achievements'' = JUndefined"
    by (simp add: playerstats_of_def parsed_or_null_def opt_get_def)
  have r1: "fst (getPlayerAchievements dev_config (replies ?b1) (JStr ''76561198000000000''))
              = Inl (Error ''Profile is not public'')"
    using t [where net = "replies ?b1" and res = "\<lparr>status = 200, parsed = Some ?b1\<rparr>"
               and m = "''Profile is not public''"] n1 h1
    by blast
  have r2: "fst (getPlayerAchievements dev_config (replies ?b2) (JStr ''76561198000000000'')) = Inr []"
    using t [where net = "replies ?b2" and res = "\<lparr>status = 200, parsed = Some ?b2\<rparr>"] n2 h2 a2
    by simp
  have r3: "fst (getPlayerAchievements dev_config (replies_text 200) (JStr ''76561198000000000''))
              = Inl (Error ''Unexpected Steam response (missing playerstats).'')"
    using t [where net = "replies_text 200" and res = "\<lparr>status = 200, parsed = None\<rparr>"] n3 h3
    by blast
  have r4: "fst (getPlayerAchievements dev_config (replies_text 403) (JStr ''76561198000000000''))
              = Inl (Error ''Steam API error (HTTP 403)'')"
    using t [where net = "replies_text 403" and res = "\<lparr>status = 403, parsed = None\<rparr>"] n4 h4 s
    by simp
  have "snd (getPlayerAchievements dev_config net (JStr ''76561198000000000'')) = [?call]" for net
    using t [where net = net] by blast
  with r1 r2 r3 r4 show ?thesis by (simp add: prod_eq_iff)
qed

text \<open>C4 as stated fails: a \<^verbatim>\<open>playerstats\<close> object that carries an \<^verbatim>\<open>error\<close> field with the
  empty string is no failure; the achievements list is returned.\<close>

theorem empty_error_field_counterexample:
  "get_prop (playerstats_of
       \<lparr>status = 200,
        parsed = Some (JObj [(''playerstats'',
                    JObj [(''error'', JStr []), (''achievements'', JArr [record_json (''A'', 1)])])])\<rparr>)
     ''error'' = JStr []
   \<and> getPlayerAchievements dev_config
        (replies (JObj [(''playerstats'',
                    JObj [(''error'', JStr []), (''achievements'', JArr [record_json (''A'', 1)])])]))
        (JStr ''76561198000000000'')
      = (Inr [record_json (''A'', 1)],
         [GetPlayerAchievements ''0123456789ABCDEF'' ''76561198000000000'' ''1609230''])"
  by (simp add: js_eval playerstats_of_def)

subsection \<open>C5\<close>

text \<open>
  C5, as amended. In production mode with the secret configured, take a request with a
  non-empty profile and a non-empty token. When the challenge call is answered and the
  body is not parseable JSON, or carries no truthy success flag, the verifier returns
  \<^verbatim>\<open>success: false\<close> with the error \<^verbatim>\<open>Turnstile failed\<close> and the parsed body (\<^verbatim>\<open>null\<close> when
  not parseable) as details, and the endpoint answers 400 with that error and those
  details. When the call itself fails (\<^verbatim>\<open>fetch\<close> rejects), the verifier throws that error
  and the endpoint answers 500 with its message.
\<close>

theorem verifier_failure_paths:
  assumes "IS_PROD cfg" and "env_set (TURNSTILE_SECRET_KEY cfg)"
    and "opt_get (req_body req) ''profile'' = JStr p" and "trim p \<noteq> []"
    and "opt_get (req_body req) ''turnstileToken'' = JStr t" and "trim t \<noteq> []"
    and "call = SiteVerify (env_string (TURNSTILE_SECRET_KEY cfg)) (trim t)
                  (if env_set (req_ip req) then req_ip req else None)"
  shows "(net call = Inr resp
            \<and> (parsed resp = None \<or> \<not> truthy (opt_get (parsed_or_null resp) ''success'')) \<longrightarrow>
          verifyTurnstileOrSkip cfg net (trim t) (req_ip req)
            = (Inr (JObj [(''success'', JBool False), (''error'', JStr ''Turnstile failed''),
                          (''details'', parsed_or_null resp)]), [call])
          \<and> post_steam_sync cfg net req
            = (\<lparr>code = 400,
                json = JObj [(''error'', JStr ''Turnstile failed''),
                             (''details'', parsed_or_null resp)]\<rparr>, [call]))
       \<and> (net call = Inl e \<longrightarrow>
          verifyTurnstileOrSkip cfg net (trim t) (req_ip req) = (Inl e, [call])
          \<and> post_steam_sync cfg net req = (server_error e, [call]))"
proof -
  have pt: "p \<noteq> []" "t \<noteq> []" using assms(4,6) by (auto simp: trim_def)
  have unparsed: "\<not> truthy (opt_get (parsed_or_null resp) ''success'')" if "parsed resp = None"
    using that by (simp add: parsed_or_null_def opt_get_def)
  have v1: "verifyTurnstileOrSkip cfg net (trim t) (req_ip req)
            = (Inr (JObj [(''success'', JBool False), (''error'', JStr ''Turnstile failed''),
                          (''details'', parsed_or_null resp)]), [call])"
    if "net call = Inr resp" "\<not> truthy (opt_get (parsed_or_null resp) ''success'')"
    using that assms(1,2,6,7) by (simp add: verifyTurnstileOrSkip_def Let_def)
  have v2: "verifyTurnstileOrSkip cfg net (trim t) (req_ip req) = (Inl e, [call])"
    if "net call = Inl e"
    using that assms(1,2,6,7) by (simp add: verifyTurnstileOrSkip_def Let_def)
  have e1: "post_steam_sync cfg net req
            = (\<lparr>code = 400,
                json = JObj [(''error'', JStr ''Turnstile failed''),
                             (''details'', parsed_or_null resp)]\<rparr>, [call])"
    if "net call = Inr resp" "\<not> truthy (opt_get (parsed_or_null resp) ''success'')"
    using assms(3,4,5) pt v1 [OF that]
    by (simp add: post_steam_sync_def js_or_def Let_def)
  have e2: "post_steam_sync cfg net req = (server_error e, [call])"
    if "net call = Inl e"
    using assms(3,4,5) pt v2 [OF that]
    by (simp add: post_steam_sync_def js_or_def Let_def)
  from unparsed v1 v2 e1 e2 show ?thesis by blast
qed

text \<open>A challenge answered with a body that is not JSON, and one answered with
  \<^verbatim>\<open>{"success": false}\<close>: status 400 both times.\<close>

theorem verifier_failure_paths_witness:
  "post_steam_sync prod_config (replies_text 502)
     \<lparr>req_body = JObj [(''profile'', JStr ''gabe''), (''turnstileToken'', JStr ''tok'')],
      req_ip = Some ''203.0.113.7''\<rparr>
   = (\<lparr>code = 400, json = JObj [(''error'', JStr ''Turnstile failed''), (''details'', JNull)]\<rparr>,
      [SiteVerify ''0x4AAAAAAA'' ''tok'' (Some ''203.0.113.7'')])
   \<and> post_steam_sync prod_config (replies (JObj [(''success'', JBool False)]))
     \<lparr>req_body = JObj [(''profile'', JStr ''gabe''), (''turnstileToken'', JStr ''tok'')],
      req_ip = Some ''203.0.113.7''\<rparr>
   = (\<lparr>code = 400,
       json = JObj [(''error'', JStr ''Turnstile failed''),
                    (''details'', JObj [(''success'', JBool False)])]\<rparr>,
      [SiteVerify ''0x4AAAAAAA'' ''tok'' (Some ''203.0.113.7'')])"
proof -
  let ?req = "\<lparr>req_body = JObj [(''profile'', JStr ''gabe''), (''turnstileToken'', JStr ''tok'')],
                req_ip = Some ''203.0.113.7''\<rparr>"
  let ?call = "SiteVerify ''0x4AAAAAAA'' ''tok'' (Some ''203.0.113.7'')"
  have a: "IS_PROD prod_config" "env_set (TURNSTILE_SECRET_KEY prod_config)"
    by (simp_all add: IS_PROD_def env_set_def prod_config_def)
  have b: "opt_get (req_body ?req) ''profile'' = JStr ''gabe''" "trim ''gabe'' \<noteq> []"
    "opt_get (req_body ?req) ''turnstileToken'' = JStr ''tok''" "trim ''tok'' \<noteq> []"
    by (simp_all add: opt_get_def trim_def is_ws_def)
  have t: "trim ''tok'' = ''tok''" by (simp add: trim_def is_ws_def)
  have c: "?call = SiteVerify (env_string (TURNSTILE_SECRET_KEY prod_config)) (trim ''tok'')
                  (if env_set (req_ip ?req) then req_ip ?req else None)"
    by (simp add: t env_string_def env_set_def prod_config_def)
  have n1: "replies_text 502 ?call = Inr \<lparr>status = 502, parsed = None\<rparr>
              \<and> (parsed \<lparr>status = 502, parsed = None\<rparr> = None
                   \<or> \<not> truthy (opt_get (parsed_or_null \<lparr>status = 502, parsed = None\<rparr>) ''success''))"
    by (simp add: replies_text_def)
  have n2: "replies (JObj [(''success'', JBool False)]) ?call
              = Inr \<lparr>status = 200, parsed = Some (JObj [(''success'', JBool False)])\<rparr>
            \<and> (parsed \<lparr>status = 200, parsed = Some (JObj [(''success'', JBool False)])\<rparr> = None
                 \<or> \<not> truthy (opt_get (parsed_or_null
                        \<lparr>status = 200, parsed = Some (JObj [(''success'', JBool False)])\<rparr>) ''success''))"
    by (simp add: replies_def parsed_or_null_def opt_get_def)
  from verifier_failure_paths [where net = "replies_text 502"
        and resp = "\<lparr>status = 502, parsed = None\<rparr>", OF a b c, THEN conjunct1, rule_format, OF n1]
    verifier_failure_paths [where net = "replies (JObj [(''success'', JBool False)])"
        and resp = "\<lparr>status = 200, parsed = Some (JObj [(''success'', JBool False)])\<rparr>",
        OF a b c, THEN conjunct1, rule_format, OF n2]
  show ?thesis by (simp add: parsed_or_null_def)
qed

text \<open>C5 as stated fails: when the challenge call itself errors the verifier throws, and
  the endpoint answers 500, not 400.\<close>

theorem verifier_call_error_counterexample:
  "verifyTurnstileOrSkip prod_config unreachable ''tok'' None
     = (Inl (TypeError ''fetch failed''), [SiteVerify ''0x4AAAAAAA'' ''tok'' None])
   \<and> post_steam_sync prod_config unreachable
        \<lparr>req_body = JObj [(''profile'', JStr ''gabe''), (''turnstileToken'', JStr ''tok'')],
         req_ip = None\<rparr>
      = (\<lparr>code = 500, json = JObj [(''error'', JStr ''fetch failed'')]\<rparr>,
         [SiteVerify ''0x4AAAAAAA'' ''tok'' None])"
  by (simp add: js_eval)

subsection \<open>C6\<close>

text \<open>
  C6, as amended. The verifier makes no outbound call in exactly three cases. Outside
  production mode it returns success (marked as skipped) for every token, the empty one
  included. In production mode without the secret it throws. In production mode with the
  secret and an empty token it returns \<^verbatim>\<open>success: false\<close> with the reason
  \<^verbatim>\<open>Missing turnstileToken\<close>. In every other case it makes the call.
\<close>

theorem verifier_short_circuits:
  "(\<not> IS_PROD cfg \<longrightarrow>
      verifyTurnstileOrSkip cfg net token ip
        = (Inr (JObj [(''success'', JBool True), (''skipped'', JBool True)]), []))
   \<and> (IS_PROD cfg \<and> \<not> env_set (TURNSTILE_SECRET_KEY cfg) \<longrightarrow>
        verifyTurnstileOrSkip cfg net token ip
          = (Inl (Error ''Missing TURNSTILE_SECRET_KEY in production''), []))
   \<and> (IS_PROD cfg \<and> env_set (TURNSTILE_SECRET_KEY cfg) \<and> token = [] \<longrightarrow>
        verifyTurnstileOrSkip cfg net token ip
          = (Inr (JObj [(''success'', JBool False), (''error'', JStr ''Missing turnstileToken'')]), []))
   \<and> (snd (verifyTurnstileOrSkip cfg net token ip) = []
        \<longleftrightarrow> \<not> IS_PROD cfg \<or> \<not> env_set (TURNSTILE_SECRET_KEY cfg) \<or> token = [])"
  by (simp add: verifyTurnstileOrSkip_def Let_def split: sum.splits)

text \<open>The three cases, and a call in the fourth: development with an empty token,
  production without the secret, production with the secret and an empty token, production
  with the secret and a token.\<close>

theorem verifier_short_circuits_witness:
  "verifyTurnstileOrSkip dev_config unreachable [] None
     = (Inr (JObj [(''success'', JBool True), (''skipped'', JBool True)]), [])
   \<and> verifyTurnstileOrSkip prod_no_secret unreachable ''tok'' None
     = (Inl (Error ''Missing TURNSTILE_SECRET_KEY in production''), [])
   \<and> verifyTurnstileOrSkip prod_config unreachable [] None
     = (Inr (JObj [(''success'', JBool False), (''error'', JStr ''Missing turnstileToken'')]), [])
   \<and> snd (verifyTurnstileOrSkip prod_config unreachable ''tok'' None) \<noteq> []"
proof -
  have d: "\<not> IS_PROD dev_config" by (simp add: IS_PROD_def dev_config_def)
  have n: "IS_PROD prod_no_secret \<and> \<not> env_set (TURNSTILE_SECRET_KEY prod_no_secret)"
    by (simp add: IS_PROD_def prod_no_secret_def env_set_def)
  have p: "IS_PROD prod_config \<and> env_set (TURNSTILE_SECRET_KEY prod_config)"
    by (simp add: IS_PROD_def prod_config_def env_set_def)
  show ?thesis
    using verifier_short_circuits [of dev_config unreachable "[]" None]
      verifier_short_circuits [of prod_no_secret unreachable "''tok''" None]
      verifier_short_circuits [of prod_config unreachable "[]" None]
      verifier_short_circuits [of prod_config unreachable "''tok''" None]
      d n p
    by simp
qed

text \<open>C6 as stated fails: in production mode with an empty token and no secret the
  verifier does not return \<^verbatim>\<open>success: false\<close>, it throws; and with no secret and a token it
  makes no call either, a third case without one.\<close>

theorem verifier_short_circuits_counterexample:
  "verifyTurnstileOrSkip prod_no_secret unreachable [] None
     = (Inl (Error ''Missing TURNSTILE_SECRET_KEY in production''), [])
   \<and> verifyTurnstileOrSkip prod_no_secret unreachable [] None
     \<noteq> (Inr (JObj [(''success'', JBool False), (''error'', JStr ''Missing turnstileToken'')]), [])
   \<and> IS_PROD prod_no_secret
   \<and> snd (verifyTurnstileOrSkip prod_no_secret unreachable ''tok'' None) = []"
  by (simp add: js_eval)

subsection \<open>C7\<close>

text \<open>
  C7. A POST request whose profile field is absent, or is a string that is empty after
  trimming (more generally: whose profile converts to a string that is empty after
  trimming), is answered 400 with the error \<^verbatim>\<open>Missing profile\<close>, whatever the configuration
  and the network are. No outbound call is made, and neither the challenge verifier nor the
  resolver nor the fetcher has a part in the answer.
\<close>

theorem missing_profile_rejected:
  "(opt_get (req_body req) ''profile'' = JUndefined \<longrightarrow>
      post_steam_sync cfg net req
        = (\<lparr>code = 400, json = JObj [(''error'', JStr ''Missing profile'')]\<rparr>, []))
   \<and> (opt_get (req_body req) ''profile'' = JStr s \<and> trim s = [] \<longrightarrow>
      post_steam_sync cfg net req
        = (\<lparr>code = 400, json = JObj [(''error'', JStr ''Missing profile'')]\<rparr>, []))
   \<and> (to_string (js_or (opt_get (req_body req) ''profile'') (JStr [])) = Inr s \<and> trim s = [] \<longrightarrow>
      post_steam_sync cfg net req
        = (\<lparr>code = 400, json = JObj [(''error'', JStr ''Missing profile'')]\<rparr>, []))"
proof -
  have g: "post_steam_sync cfg net req
        = (\<lparr>code = 400, json = JObj [(''error'', JStr ''Missing profile'')]\<rparr>, [])"
    if "to_string (js_or (opt_get (req_body req) ''profile'') (JStr [])) = Inr s'" "trim s' = []"
    for s'
    using that by (simp add: post_steam_sync_def missing_profile_def)
  have a: "to_string (js_or (opt_get (req_body req) ''profile'') (JStr [])) = Inr []"
    if "opt_get (req_body req) ''profile'' = JUndefined"
    using that by (simp add: js_or_def)
  have e: "trim [] = []" by (simp add: trim_def)
  have b: "to_string (js_or (opt_get (req_body req) ''profile'') (JStr [])) = Inr s"
    if "opt_get (req_body req) ''profile'' = JStr s"
    using that by (simp add: js_or_def)
  from g [OF a e] g [OF b] g [of s] show ?thesis by blast
qed

text \<open>A request without a body object, one without the field and one with a blank
  profile, in production mode without the secret and with the network down.\<close>

theorem missing_profile_rejected_witness:
  "post_steam_sync prod_no_secret unreachable \<lparr>req_body = JUndefined, req_ip = None\<rparr>
     = (\<lparr>code = 400, json = JObj [(''error'', JStr ''Missing profile'')]\<rparr>, [])
   \<and> post_steam_sync prod_no_secret unreachable
        \<lparr>req_body = JObj [(''client'', JArr [])], req_ip = None\<rparr>
     = (\<lparr>code = 400, json = JObj [(''error'', JStr ''Missing profile'')]\<rparr>, [])
   \<and> post_steam_sync prod_no_secret unreachable
        \<lparr>req_body = JObj [(''profile'', JStr ''   '')], req_ip = None\<rparr>
     = (\<lparr>code = 400, json = JObj [(''error'', JStr ''Missing profile'')]\<rparr>, [])"
proof -
  have 1: "opt_get (req_body \<lparr>req_body = JUndefined, req_ip = None\<rparr>) ''profile'' = JUndefined"
    by (simp add: opt_get_def)
  have 2: "opt_get (req_body \<lparr>req_body = JObj [(''client'', JArr [])], req_ip = None\<rparr>) ''profile''
             = JUndefined"
    by (simp add: opt_get_def)
  have 3: "opt_get (req_body \<lparr>req_body = JObj [(''profile'', JStr ''   '')], req_ip = None\<rparr>)
             ''profile'' = JStr ''   '' \<and> trim ''   '' = []"
    by (simp add: opt_get_def trim_def is_ws_def)
  from missing_profile_rejected [THEN conjunct1, rule_format, OF 1]
    missing_profile_rejected [THEN conjunct1, rule_format, OF 2]
    missing_profile_rejected [THEN conjunct2, THEN conjunct1, rule_format, OF 3]
  show ?thesis by blast
qed

subsection \<open>C8\<close>

text \<open>
  C8, as amended. An error that vanity resolution raises on a response with a success
  status (the success flag is not \<open>1\<close>, the id is missing, the body is not JSON) has the
  message \<^verbatim>\<open>Could not resolve that Steam profile. (vanity=...)\<close>, which contains the original
  vanity string; on a response with another status the message is
  \<^verbatim>\<open>ResolveVanityURL failed (HTTP status)\<close>, without the vanity string. No result of vanity
  resolution, of the achievement fetch or of the endpoint is computed from the API
  credential: with another credential, and a network that answers the requests as before,
  the result and every error message are the same. So a message holds the credential only
  where the vanity string, the reply of the downstream service or the fixed wording holds
  it. A body that is not JSON, sent with a success status, makes the two functions fail
  with the fixed messages, and the endpoint answers 500 with them.
\<close>

theorem vanity_errors_and_api_key:
  assumes "call = ResolveVanityURL (env_string (STEAM_API_KEY cfg)) vanity"
  shows "(net call = Inr res \<and> ok res \<and> fst (resolveVanity cfg net vanity) = Inl e \<longrightarrow>
            e = Error (''Could not resolve that Steam profile. (vanity='' @ vanity @ '')'')
            \<and> contains (message e) vanity)
    \<and> (net call = Inr res \<and> \<not> ok res \<longrightarrow>
          fst (resolveVanity cfg net vanity)
            = Inl (Error (''ResolveVanityURL failed (HTTP '' @ show_nat (status res) @ '')'')))
    \<and> (net call = Inr res \<and> ok res \<and> parsed res = None \<longrightarrow>
          fst (resolveVanity cfg net vanity)
            = Inl (Error (''Could not resolve that Steam profile. (vanity='' @ vanity @ '')'')))
    \<and> fst (resolveVanity (cfg\<lparr>STEAM_API_KEY := k'\<rparr>)
             (net \<circ> with_key (env_string (STEAM_API_KEY cfg))) vanity)
        = fst (resolveVanity cfg net vanity)
    \<and> fst (getPlayerAchievements (cfg\<lparr>STEAM_API_KEY := k'\<rparr>)
             (net \<circ> with_key (env_string (STEAM_API_KEY cfg))) sid)
        = fst (getPlayerAchievements cfg net sid)
    \<and> fst (post_steam_sync (cfg\<lparr>STEAM_API_KEY := k'\<rparr>)
             (net \<circ> with_key (env_string (STEAM_API_KEY cfg))) req)
        = fst (post_steam_sync cfg net req)"
proof -
  have inside: "contains (''Could not resolve that Steam profile. (vanity='' @ vanity @ '')'') vanity"
    unfolding contains_iff by blast
  have 1: "e = Error (''Could not resolve that Steam profile. (vanity='' @ vanity @ '')'')
            \<and> contains (message e) vanity"
    if "net call = Inr res \<and> ok res \<and> fst (resolveVanity cfg net vanity) = Inl e"
  proof -
    from that assms
    have "e = Error (''Could not resolve that Steam profile. (vanity='' @ vanity @ '')'')"
      by (auto simp: resolveVanity_def Let_def split: if_splits)
    with inside show ?thesis by simp
  qed
  have 2: "fst (resolveVanity cfg net vanity)
            = Inl (Error (''ResolveVanityURL failed (HTTP '' @ show_nat (status res) @ '')''))"
    if "net call = Inr res \<and> \<not> ok res"
    using that assms by (simp add: resolveVanity_def Let_def)
  have 3: "fst (resolveVanity cfg net vanity)
            = Inl (Error (''Could not resolve that Steam profile. (vanity='' @ vanity @ '')''))"
    if "net call = Inr res \<and> ok res \<and> parsed res = None"
    using that assms by (simp add: resolveVanity_def Let_def parsed_or_null_def opt_get_def)
  from 1 2 3 show ?thesis
    by (simp only: rekey_resolveVanity rekey_getPlayerAchievements rekey_post_steam_sync) blast
qed

text \<open>A directory that answers with a page that is not JSON, under status 200: the
  message carries the vanity name \<^verbatim>\<open>gabe\<close>; the endpoint answers 500 with it, and with the
  same under another API key.\<close>

theorem vanity_errors_and_api_key_witness:
  "fst (resolveVanity dev_config (replies_text 200) ''gabe'')
     = Inl (Error ''Could not resolve that Steam profile. (vanity=gabe)'')
   \<and> contains ''Could not resolve that Steam profile. (vanity=gabe)'' ''gabe''
   \<and> fst (post_steam_sync dev_config (replies_text 200)
            \<lparr>req_body = JObj [(''profile'', JStr ''gabe'')], req_ip = None\<rparr>)
     = \<lparr>code = 500,
        json = JObj [(''error'', JStr ''Could not resolve that Steam profile. (vanity=gabe)'')]\<rparr>
   \<and> fst (post_steam_sync (dev_config\<lparr>STEAM_API_KEY := Some ''FEDCBA9876543210''\<rparr>)
            (replies_text 200 \<circ> with_key ''0123456789ABCDEF'')
            \<lparr>req_body = JObj [(''profile'', JStr ''gabe'')], req_ip = None\<rparr>)
     = \<lparr>code = 500,
        json = JObj [(''error'', JStr ''Could not resolve that Steam profile. (vanity=gabe)'')]\<rparr>
   \<and> fst (post_steam_sync dev_config (replies_text 200)
            \<lparr>req_body = JObj [(''profile'', JStr ''76561198000000000'')], req_ip = None\<rparr>)
     = \<lparr>code = 500,
        json = JObj [(''error'', JStr ''Unexpected Steam response (missing playerstats).'')]\<rparr>"
proof -
  let ?call = "ResolveVanityURL ''0123456789ABCDEF'' ''gabe''"
  let ?res = "\<lparr>status = 200, parsed = None\<rparr>"
  let ?req = "\<lparr>req_body = JObj [(''profile'', JStr ''gabe'')], req_ip = None\<rparr>"
  have c: "?call = ResolveVanityURL (env_string (STEAM_API_KEY dev_config)) ''gabe''"
    by (simp add: env_string_def dev_config_def)
  have k: "env_string (STEAM_API_KEY dev_config) = ''0123456789ABCDEF''"
    by (simp add: env_string_def dev_config_def)
  note t = vanity_errors_and_api_key [OF c, where net = "replies_text 200" and res = ?res
      and k' = "Some ''FEDCBA9876543210''" and req = ?req]
  have n: "replies_text 200 ?call = Inr ?res \<and> ok ?res \<and> parsed ?res = None"
    by (simp add: replies_text_def ok_def)
  have n1: "replies_text 200 ?call = Inr ?res \<and> ok ?res
              \<and> fst (resolveVanity dev_config (replies_text 200) ''gabe'')
                   = Inl (Error ''Could not resolve that Steam profile. (vanity=gabe)'')"
    by (simp add: js_eval)
  from t [THEN conjunct2, THEN conjunct2, THEN conjunct1, rule_format, OF n]
  have r: "fst (resolveVanity dev_config (replies_text 200) ''gabe'')
     = Inl (Error ''Could not resolve that Steam profile. (vanity=gabe)'')"
    by simp
  from t [where e = "Error ''Could not resolve that Steam profile. (vanity=gabe)''",
      THEN conjunct1, rule_format, OF n1]
  have i: "contains ''Could not resolve that Steam profile. (vanity=gabe)'' ''gabe''"
    by simp
  have p1: "fst (post_steam_sync dev_config (replies_text 200) ?req)
     = \<lparr>code = 500,
        json = JObj [(''error'', JStr ''Could not resolve that Steam profile. (vanity=gabe)'')]\<rparr>"
    by (simp add: js_eval)
  from t [THEN conjunct2, THEN conjunct2, THEN conjunct2, THEN conjunct2, THEN conjunct2]
  have "fst (post_steam_sync (dev_config\<lparr>STEAM_API_KEY := Some ''FEDCBA9876543210''\<rparr>)
            (replies_text 200 \<circ> with_key ''0123456789ABCDEF'') ?req)
     = fst (post_steam_sync dev_config (replies_text 200) ?req)"
    unfolding k .
  with p1 have p2: "fst (post_steam_sync (dev_config\<lparr>STEAM_API_KEY := Some ''FEDCBA9876543210''\<rparr>)
            (replies_text 200 \<circ> with_key ''0123456789ABCDEF'') ?req)
     = \<lparr>code = 500,
        json = JObj [(''error'', JStr ''Could not resolve that Steam profile. (vanity=gabe)'')]\<rparr>"
    by (simp only:)
  have p3: "fst (post_steam_sync dev_config (replies_text 200)
            \<lparr>req_body = JObj [(''profile'', JStr ''76561198000000000'')], req_ip = None\<rparr>)
     = \<lparr>code = 500,
        json = JObj [(''error'', JStr ''Unexpected Steam response (missing playerstats).'')]\<rparr>"
    by (simp add: js_eval)
  from r i p1 p2 p3 show ?thesis by (intro conjI)
qed

text \<open>C8 as stated fails: on a response with status 500 the error of vanity resolution
  does not include the vanity string.\<close>

theorem vanity_http_error_counterexample:
  "resolveVanity dev_config (replies_text 500) ''gabe''
     = (Inl (Error ''ResolveVanityURL failed (HTTP 500)''),
        [ResolveVanityURL ''0123456789ABCDEF'' ''gabe''])
   \<and> \<not> contains ''ResolveVanityURL failed (HTTP 500)'' ''gabe''"
  by (simp add: js_eval)

subsection \<open>C9\<close>

text \<open>
  C9. The list \<open>unlocked\<close> keeps multiplicity. Two stats records with the same api-name,
  both achieved, give the key twice; so do two manifest entries with distinct api-names and
  the same key when both api-names are achieved. \<open>count\<close> counts every occurrence.
\<close>

theorem unlocked_keeps_duplicates:
  "handleSync dev_config (replies (stats_body (map record_json [(''A'', 1), (''A'', 1)])))
     (JStr ''76561198000000000'') (JArr (map entry_json [(''A'', ''k'')])) =
   (Inr \<lparr>steamid64 = JStr ''76561198000000000'', unlocked = [JStr ''k'', JStr ''k''], count = 2\<rparr>,
    [GetPlayerAchievements ''0123456789ABCDEF'' ''76561198000000000'' ''1609230''])
   \<and> handleSync dev_config (replies (stats_body (map record_json [(''A'', 1), (''B'', 1)])))
     (JStr ''76561198000000000'') (JArr (map entry_json [(''A'', ''k''), (''B'', ''k'')])) =
   (Inr \<lparr>steamid64 = JStr ''76561198000000000'', unlocked = [JStr ''k'', JStr ''k''], count = 2\<rparr>,
    [GetPlayerAchievements ''0123456789ABCDEF'' ''76561198000000000'' ''1609230''])"
  by (simp add: js_eval)

text \<open>In the first of the two results the key \<open>k\<close> stands twice in \<open>unlocked\<close>.\<close>

theorem unlocked_keeps_duplicates_witness:
  "\<exists>r t. handleSync dev_config (replies (stats_body (map record_json [(''A'', 1), (''A'', 1)])))
            (JStr ''76561198000000000'') (JArr (map entry_json [(''A'', ''k'')])) = (Inr r, t)
        \<and> count_list (unlocked r) (JStr ''k'') = 2 \<and> count r = 2"
  using unlocked_keeps_duplicates by simp

subsection \<open>C10\<close>

text \<open>
  C10. The first loop of \<^verbatim>\<open>handleSync\<close> passes over a manifest entry whose api-name or key
  is absent or the empty string, without an error: the result is the one for the manifest
  without that entry. So an achieved achievement whose only entry has an empty key is left
  out of \<open>unlocked\<close>, and a later entry with an empty key does not override an earlier entry
  of the same api-name: the last entry wins only among the entries with both fields
  non-empty.
\<close>

theorem handleSync_ignores_entry:
  assumes "opt_get e ''apiname'' \<in> {JUndefined, JStr []} \<or> opt_get e ''key'' \<in> {JUndefined, JStr []}"
  shows "handleSync cfg net profile (JArr (before @ [e] @ after))
           = handleSync cfg net profile (JArr (before @ after))"
proof -
  have "apiToKey_step (build_apiToKey before) e = build_apiToKey before"
    using assms by (rule apiToKey_step_ignored)
  then have "build_apiToKey (before @ [e] @ after) = build_apiToKey (before @ after)"
    by (rule build_apiToKey_skip)
  then show ?thesis by (simp only: handleSync_array)
qed

text \<open>An achieved achievement A whose only entry has the empty key is not in \<open>unlocked\<close>;
  the entry A \<open>\<mapsto>\<close> k1 stays in force after a later entry for A with the empty key.\<close>

theorem handleSync_ignores_entry_witness:
  "handleSync dev_config (replies (stats_body (map record_json [(''A'', 1)])))
     (JStr ''76561198000000000'') (JArr ([] @ [entry_json (''A'', '''')] @ [])) =
   (Inr \<lparr>steamid64 = JStr ''76561198000000000'', unlocked = [], count = 0\<rparr>,
    [GetPlayerAchievements ''0123456789ABCDEF'' ''76561198000000000'' ''1609230''])
   \<and> handleSync dev_config (replies (stats_body (map record_json [(''A'', 1)])))
     (JStr ''76561198000000000'')
     (JArr ([entry_json (''A'', ''k1'')] @ [entry_json (''A'', '''')] @ [])) =
   (Inr \<lparr>steamid64 = JStr ''76561198000000000'', unlocked = [JStr ''k1''], count = 1\<rparr>,
    [GetPlayerAchievements ''0123456789ABCDEF'' ''76561198000000000'' ''1609230''])"
proof -
  let ?net = "replies (stats_body (map record_json [(''A'', 1)]))"
  let ?p = "JStr ''76561198000000000''"
  have e: "opt_get (entry_json (''A'', '''')) ''apiname'' \<in> {JUndefined, JStr []}
             \<or> opt_get (entry_json (''A'', '''')) ''key'' \<in> {JUndefined, JStr []}"
    by (simp add: entry_json_def opt_get_def)
  have 1: "handleSync dev_config ?net ?p (JArr ([] @ [])) =
             (Inr \<lparr>steamid64 = ?p, unlocked = [], count = 0\<rparr>,
              [GetPlayerAchievements ''0123456789ABCDEF'' ''76561198000000000'' ''1609230''])"
    by (simp add: js_eval)
  have 2: "handleSync dev_config ?net ?p (JArr ([entry_json (''A'', ''k1'')] @ [])) =
             (Inr \<lparr>steamid64 = ?p, unlocked = [JStr ''k1''], count = 1\<rparr>,
              [GetPlayerAchievements ''0123456789ABCDEF'' ''76561198000000000'' ''1609230''])"
    by (simp add: js_eval)
  show ?thesis
    using handleSync_ignores_entry [OF e, of dev_config ?net ?p "[]" "[]"]
      handleSync_ignores_entry [OF e, of dev_config ?net ?p "[entry_json (''A'', ''k1'')]" "[]"]
      1 2
    by (simp only:)
qed

end
